theory Spec2Isabelle
  imports Complex_Main "HOL-Library.Multiset"
begin

section \<open>Storyboard-to-3D: the Python bridge of the editor plugin\<close>

text \<open>
  The development embeds \<^verbatim>\<open>Source/StoryboardTo3D/Private/StoryboardPythonBridge.cpp\<close>
  and the panel structure of \<^verbatim>\<open>Public/StoryboardPythonBridge.h\<close>. The bridge functions are
  static methods that call into the Unreal editor; the editor is not part of the repository.
  Its answers (is there a world, does an asset load, does a spawn return an actor, what does
  the random generator return) are the fields of a record \<open>Host\<close>, and everything the bridge
  asks of the editor is appended to the list \<open>Calls\<close> of the run. \<^verbatim>\<open>UE_LOG\<close> output is not
  modelled.
\<close>

subsection \<open>Single-precision arithmetic on whole numbers\<close>

text \<open>
  The source computes the scene centre and the character offsets in \<^verbatim>\<open>float\<close>:
  \<^verbatim>\<open>Panel.Index * 2000.0f\<close> converts the \<^verbatim>\<open>int32\<close> to \<^verbatim>\<open>float\<close> and multiplies in \<^verbatim>\<open>float\<close>.
  A \<^verbatim>\<open>float\<close> (IEEE binary32) has a 24-bit significand; every operation, the
  conversion from \<^verbatim>\<open>int32\<close> included, is rounded on its own and returns the representable
  value nearest to the exact result, ties going to the even significand.
  All values of these expressions are whole numbers far below the overflow threshold, so a
  \<^verbatim>\<open>float\<close> is modelled by the integer it holds and each operation rounds its exact result
  with \<open>RoundToFloat\<close>. \<open>quantum n\<close> is the distance between neighbouring \<^verbatim>\<open>float\<close>s at
  magnitude \<open>n\<close>: 1 below \<open>2^24\<close>, doubling with every further bit.
\<close>

function quantum :: "nat \<Rightarrow> nat" where
  "quantum n = (if n < 16777216 then 1 else 2 * quantum (n div 2))"
  by pat_completeness auto
termination
  by (relation "measure id") auto

declare quantum.simps [simp del]

definition RoundToFloat :: "int \<Rightarrow> int" where
  "RoundToFloat x =
     (let q = int (quantum (nat \<bar>x\<bar>)); m = x div q; r = x mod q
      in if 2 * r < q then m * q
         else if q < 2 * r then (m + 1) * q
         else if even m then m * q else (m + 1) * q)"

definition float_of_int32 :: "int \<Rightarrow> int" where
  "float_of_int32 i = RoundToFloat i"

definition float_mul :: "int \<Rightarrow> int \<Rightarrow> int" where
  "float_mul a b = RoundToFloat (a * b)"

definition float_sub :: "int \<Rightarrow> int \<Rightarrow> int" where
  "float_sub a b = RoundToFloat (a - b)"

subsection \<open>Engine value types\<close>

text \<open>
  \<^verbatim>\<open>FVector\<close> has \<^verbatim>\<open>double\<close> components in Unreal Engine 5 (the source targets 5.6). Every
  component that arises here is a whole number of magnitude below \<open>2^43\<close>, which a
  \<^verbatim>\<open>double\<close> holds exactly, and so are the sums and differences of two of them: vector
  addition and subtraction are exact and the components are integers.
  \<^verbatim>\<open>FVector::Rotation()\<close> is the engine's; the rotator it returns is kept symbolic as
  \<open>Rotation d\<close>, the orientation along the direction \<open>d\<close>.
\<close>

datatype FVector = FVector (X: int) (Y: int) (Z: int)

definition FVector_plus :: "FVector \<Rightarrow> FVector \<Rightarrow> FVector" where
  "FVector_plus a b = FVector (X a + X b) (Y a + Y b) (Z a + Z b)"

definition FVector_minus :: "FVector \<Rightarrow> FVector \<Rightarrow> FVector" where
  "FVector_minus a b = FVector (X a - X b) (Y a - Y b) (Z a - Z b)"

datatype FRotator = ZeroRotator | Rotation FVector

text \<open>
  \<^verbatim>\<open>FLinearColor(R, G, B)\<close> has alpha 1. The components are written as the decimal literals
  of the source (the program stores the nearest \<^verbatim>\<open>float\<close>); no arithmetic is done on them.
\<close>

datatype FLinearColor = FLinearColor (R: rat) (G: rat) (B: rat) (A: rat)

definition White :: FLinearColor where
  "White = FLinearColor 1 1 1 1"

subsection \<open>FString comparison\<close>

text \<open>
  \<^verbatim>\<open>Panel.ShotType == TEXT("close")\<close> is the engine's \<^verbatim>\<open>FString::operator==\<close>, which the
  engine documents as case insensitive (\<^verbatim>\<open>Containers/UnrealString.h\<close>: it returns
  \<^verbatim>\<open>FPlatformString::Stricmp(*Lhs, Rhs) == 0\<close>). \<^verbatim>\<open>Stricmp\<close> walks both strings and compares
  the characters after mapping the ASCII capitals \<^verbatim>\<open>A\<close> to \<^verbatim>\<open>Z\<close> to lower case; all other
  characters are compared as they are. A string is the list of its characters, without
  the terminating NUL and with no NUL inside.
\<close>

definition LowerAscii :: "char \<Rightarrow> char" where
  "LowerAscii c =
     (if 65 \<le> (of_char c :: nat) \<and> (of_char c :: nat) \<le> 90
      then char_of (of_char c + 32 :: nat) else c)"

fun FString_eq :: "string \<Rightarrow> string \<Rightarrow> bool" where
  "FString_eq [] [] = True"
| "FString_eq (a # as) (b # bs) = (LowerAscii a = LowerAscii b \<and> FString_eq as bs)"
| "FString_eq _ _ = False"

text \<open>The string with its ASCII capitals in lower case: what the comparison looks at.\<close>

definition ToLower :: "string \<Rightarrow> string" where
  "ToLower s = map LowerAscii s"

subsection \<open>The panel, the host and a run\<close>

record FStoryboardPanel =
  ImagePath :: string
  Index :: int
  ShotType :: string
  NumCharacters :: int
  Objects :: "string list"
  Mood :: string
  TimeOfDay :: string

text \<open>
  \<open>Index\<close> and \<open>NumCharacters\<close> are \<^verbatim>\<open>int32\<close>. The only integer arithmetic of the source is
  \<^verbatim>\<open>i++\<close> below \<open>NumCharacters\<close> and \<^verbatim>\<open>Panel.NumCharacters - 1\<close> inside that loop, where
  \<open>NumCharacters\<close> is at least 1: neither can overflow, so the fields are integers.
\<close>

datatype HostCall =
    LoadAsset string
  | SpawnActorFromObject string FVector FRotator
  | SpawnCineCameraActor FVector FRotator
  | SetCurrentFocalLength rat
  | SpawnPointLight FVector FRotator
  | SetIntensity rat
  | SetLightColor FLinearColor
  | TagsAdd string
  | CreatePackage string
  | NewLevelSequence string string
  | SetPlaybackRange int int
  | SaveAsset string

text \<open>
  The host's answers. \<open>Spawns\<close> tells, from the calls made so far with the spawn request
  last, whether the request returns an actor. \<open>Random k lo hi\<close> is what the \<open>k\<close>-th call of
  \<^verbatim>\<open>FMath::RandRange(lo, hi)\<close> of the session returns.
\<close>

record Host =
  World :: bool
  Assets :: "string \<Rightarrow> bool"
  Spawns :: "HostCall list \<Rightarrow> bool"
  CineCameraComponent :: bool
  Random :: "nat \<Rightarrow> int \<Rightarrow> int \<Rightarrow> int"
  NewObjects :: bool
  MovieScene :: bool
  DisplayRate :: rat

record Run =
  Drawn :: nat
  Calls :: "HostCall list"

definition call :: "HostCall \<Rightarrow> Run \<Rightarrow> Run" where
  "call c s = s\<lparr>Calls := Calls s @ [c]\<rparr>"

definition FMath_RandRange :: "Host \<Rightarrow> Run \<Rightarrow> int \<Rightarrow> int \<Rightarrow> int \<times> Run" where
  "FMath_RandRange host s lo hi = (Random host (Drawn s) lo hi, s\<lparr>Drawn := Suc (Drawn s)\<rparr>)"

text \<open>
  The engine's contract for \<^verbatim>\<open>FMath::RandRange\<close>: the result lies between the two bounds.
\<close>

definition RandRange_contract :: "Host \<Rightarrow> bool" where
  "RandRange_contract host =
     (\<forall>k lo hi. lo \<le> hi \<longrightarrow> lo \<le> Random host k lo hi \<and> Random host k lo hi \<le> hi)"

subsection \<open>PlaceActorInScene, CreateCamera, SetupLighting\<close>

definition PlaceActorInScene :: "Host \<Rightarrow> Run \<Rightarrow> string \<Rightarrow> FVector \<Rightarrow> FRotator \<Rightarrow> Run" where
  "PlaceActorInScene host s AssetPath Location Rot =
     (let s1 = call (LoadAsset AssetPath) s
      in if \<not> Assets host AssetPath then s1
         else let request = SpawnActorFromObject AssetPath Location Rot;
                  SpawnedActor = Spawns host (Calls s1 @ [request]);
                  s2 = call request s1
              in if SpawnedActor then call (TagsAdd ''StoryboardGenerated'') s2 else s2)"

text \<open>The result of \<open>CreateCamera\<close> tells whether the returned actor pointer is non-null.\<close>

definition CreateCamera :: "Host \<Rightarrow> Run \<Rightarrow> FVector \<Rightarrow> FRotator \<Rightarrow> rat \<Rightarrow> bool \<times> Run" where
  "CreateCamera host s Location Rot FocalLength =
     (if \<not> World host then (False, s)
      else let request = SpawnCineCameraActor Location Rot;
               CameraActor = Spawns host (Calls s @ [request]);
               s1 = call request s
           in if CameraActor
              then (True, call (TagsAdd ''StoryboardCamera'')
                      (if CineCameraComponent host
                       then call (SetCurrentFocalLength FocalLength) s1 else s1))
              else (False, s1))"

text \<open>
  Lines 154 to 175 of the source: the colour and intensity chosen from the time of day,
  then the intensity scaled by the mood. The intensities are \<^verbatim>\<open>float\<close>s; the values met
  (1, 2, 3, their products with 0.5 and 1.5, and those times 1000) are all representable
  and every product is exact, so they are rationals with exact multiplication.
\<close>

definition TimeOfDayLight :: "string \<Rightarrow> FLinearColor \<times> rat" where
  "TimeOfDayLight tod =
     (if FString_eq tod ''night'' then (FLinearColor 0.4 0.5 0.7 1, 1)
      else if FString_eq tod ''dawn'' \<or> FString_eq tod ''dusk''
      then (FLinearColor 1 0.6 0.3 1, 2)
      else (White, 3))"

definition MoodIntensity :: "string \<Rightarrow> rat \<Rightarrow> rat" where
  "MoodIntensity mood Intensity =
     (if FString_eq mood ''dark'' \<or> FString_eq mood ''moody'' then Intensity * 0.5
      else if FString_eq mood ''bright'' \<or> FString_eq mood ''cheerful'' then Intensity * 1.5
      else Intensity)"

definition LightColor :: "string \<Rightarrow> FLinearColor" where
  "LightColor tod = fst (TimeOfDayLight tod)"

definition LightIntensity :: "string \<Rightarrow> string \<Rightarrow> rat" where
  "LightIntensity mood tod = MoodIntensity mood (snd (TimeOfDayLight tod))"

definition KeyLightLocation :: FVector where
  "KeyLightLocation = FVector (- 500) (- 500) 500"

definition SetupLighting :: "Host \<Rightarrow> Run \<Rightarrow> string \<Rightarrow> string \<Rightarrow> Run" where
  "SetupLighting host s mood tod =
     (if \<not> World host then s
      else let request = SpawnPointLight KeyLightLocation ZeroRotator;
               KeyLight = Spawns host (Calls s @ [request]);
               s1 = call request s
           in if KeyLight
              then call (TagsAdd ''StoryboardLight'')
                     (call (SetLightColor (LightColor tod))
                        (call (SetIntensity (LightIntensity mood tod * 1000)) s1))
              else s1)"

subsection \<open>CreateSceneFromPanel\<close>

definition SceneCenter :: "FStoryboardPanel \<Rightarrow> FVector" where
  "SceneCenter Panel = FVector (float_mul (float_of_int32 (Index Panel)) 2000) 0 0"

text \<open>The second component of the vector added to the scene centre in line 50.\<close>

definition CharOffset :: "FStoryboardPanel \<Rightarrow> int \<Rightarrow> int" where
  "CharOffset Panel i =
     float_sub (float_mul (float_of_int32 i) 150)
               (float_mul (float_of_int32 (NumCharacters Panel - 1)) 75)"

definition CharLocation :: "FStoryboardPanel \<Rightarrow> int \<Rightarrow> FVector" where
  "CharLocation Panel i = FVector_plus (SceneCenter Panel) (FVector 0 (CharOffset Panel i) 0)"

definition Cylinder :: string where
  "Cylinder = ''/Engine/BasicShapes/Cylinder''"

definition Cube :: string where
  "Cube = ''/Engine/BasicShapes/Cube''"

function PlaceCharacters :: "Host \<Rightarrow> Run \<Rightarrow> FStoryboardPanel \<Rightarrow> int \<Rightarrow> Run" where
  "PlaceCharacters host s Panel i =
     (if i < NumCharacters Panel
      then PlaceCharacters host
             (PlaceActorInScene host s Cylinder (CharLocation Panel i) ZeroRotator)
             Panel (i + 1)
      else s)"
  by pat_completeness auto
termination
  by (relation "measure (\<lambda>(host, s, Panel, i). nat (NumCharacters Panel - i))") auto

declare PlaceCharacters.simps [simp del]

text \<open>
  The two random numbers of one object are drawn in the order in which the arguments are
  written (C++ leaves the order open; no statement below depends on it).
\<close>

fun PlaceObjects :: "Host \<Rightarrow> Run \<Rightarrow> FVector \<Rightarrow> string list \<Rightarrow> Run" where
  "PlaceObjects host s c [] = s"
| "PlaceObjects host s c (ObjectName # rest) =
     (let (rx, s1) = FMath_RandRange host s (- 500) 500;
          (ry, s2) = FMath_RandRange host s1 (- 500) 500;
          ObjectLocation = FVector_plus c (FVector rx ry 0)
      in PlaceObjects host
           (PlaceActorInScene host s2 Cube ObjectLocation ZeroRotator)
           c rest)"

definition CameraDistance :: "FStoryboardPanel \<Rightarrow> int" where
  "CameraDistance Panel =
     (if FString_eq (ShotType Panel) ''close'' then 200
      else if FString_eq (ShotType Panel) ''wide'' then 1000
      else 500)"

definition CameraLocation :: "FStoryboardPanel \<Rightarrow> FVector" where
  "CameraLocation Panel =
     FVector_plus (SceneCenter Panel) (FVector (- CameraDistance Panel) 0 160)"

definition CameraRotation :: "FStoryboardPanel \<Rightarrow> FRotator" where
  "CameraRotation Panel = Rotation (FVector_minus (SceneCenter Panel) (CameraLocation Panel))"

definition CreateSceneFromPanel :: "Host \<Rightarrow> Run \<Rightarrow> FStoryboardPanel \<Rightarrow> Run" where
  "CreateSceneFromPanel host s Panel =
     (if \<not> World host then s
      else let s1 = PlaceCharacters host s Panel 0;
               s2 = PlaceObjects host s1 (SceneCenter Panel) (Objects Panel);
               s3 = snd (CreateCamera host s2 (CameraLocation Panel) (CameraRotation Panel) 50)
           in SetupLighting host s3 (Mood Panel) (TimeOfDay Panel))"

subsection \<open>CreateSequenceForPanel\<close>

text \<open>
  \<^verbatim>\<open>FString::Printf(TEXT("Panel_%02d_Sequence"), Panel.Index)\<close>: the conversion \<^verbatim>\<open>%02d\<close>
  writes the number in decimal, a minus sign first when it is negative, and fills with
  zeros after the sign up to a width of two characters.
\<close>

definition digit_char :: "nat \<Rightarrow> char" where
  "digit_char d = char_of (48 + d)"

function decimal :: "nat \<Rightarrow> string" where
  "decimal n = (if n < 10 then [digit_char n] else decimal (n div 10) @ [digit_char (n mod 10)])"
  by pat_completeness auto
termination
  by (relation "measure id") auto

declare decimal.simps [simp del]

definition Printf_02d :: "int \<Rightarrow> string" where
  "Printf_02d n =
     (if n < 0 then CHR ''-'' # decimal (nat (- n))
      else replicate (2 - length (decimal (nat n))) CHR ''0'' @ decimal (nat n))"

definition SequenceName :: "FStoryboardPanel \<Rightarrow> string" where
  "SequenceName Panel = ''Panel_'' @ Printf_02d (Index Panel) @ ''_Sequence''"

definition PackagePath :: "FStoryboardPanel \<Rightarrow> string" where
  "PackagePath Panel = ''/Game/StoryboardSequences/'' @ SequenceName Panel"

text \<open>
  \<^verbatim>\<open>FMath::RoundToInt\<close> rounds half up. The duration and the display rate are the rationals
  the floating-point arguments denote; the rounding of their product in \<^verbatim>\<open>double\<close> is not
  modelled, and no statement below is about the playback range. The result is the name of
  the new sequence, \<open>None\<close> for a null pointer.
\<close>

definition RoundToInt :: "rat \<Rightarrow> int" where
  "RoundToInt x = \<lfloor>x + 1 / 2\<rfloor>"

definition CreateSequenceForPanel ::
  "Host \<Rightarrow> Run \<Rightarrow> FStoryboardPanel \<Rightarrow> rat \<Rightarrow> string option \<times> Run" where
  "CreateSequenceForPanel host s Panel Duration =
     (let s1 = call (CreatePackage (PackagePath Panel)) s;
          s2 = call (NewLevelSequence (PackagePath Panel) (SequenceName Panel)) s1
      in if NewObjects host
         then let DurationInFrames = RoundToInt (Duration * DisplayRate host);
                  s3 = (if MovieScene host then call (SetPlaybackRange 0 DurationInFrames) s2
                        else s2)
              in (Some (SequenceName Panel), call (SaveAsset (PackagePath Panel)) s3)
         else (None, s2))"

subsection \<open>The texture utilities\<close>

text \<open>A texture pointer is \<open>None\<close> when null; the handle of a texture is a number.\<close>

definition SaveTextureToFile :: "Run \<Rightarrow> nat option \<Rightarrow> string \<Rightarrow> bool \<times> Run" where
  "SaveTextureToFile s Texture FilePath =
     (if Texture = None then (False, s) else (False, s))"

definition LoadTextureFromFile :: "Run \<Rightarrow> string \<Rightarrow> nat option \<times> Run" where
  "LoadTextureFromFile s FilePath = (None, s)"


section \<open>Observing a run\<close>

text \<open>
  \<open>NewCalls s s'\<close> are the calls a run \<open>s'\<close> has made beyond those of the run \<open>s\<close> it
  continues. The predicates pick the calls of one kind out of such a list.
\<close>

definition NewCalls :: "Run \<Rightarrow> Run \<Rightarrow> HostCall list" where
  "NewCalls s s' = drop (length (Calls s)) (Calls s')"

fun isCameraSpawn :: "HostCall \<Rightarrow> bool" where
  "isCameraSpawn (SpawnCineCameraActor l r) = True"
| "isCameraSpawn _ = False"

fun isFocalLength :: "HostCall \<Rightarrow> bool" where
  "isFocalLength (SetCurrentFocalLength f) = True"
| "isFocalLength _ = False"

fun isLightSpawn :: "HostCall \<Rightarrow> bool" where
  "isLightSpawn (SpawnPointLight l r) = True"
| "isLightSpawn _ = False"

fun isLightSetting :: "HostCall \<Rightarrow> bool" where
  "isLightSetting (SetIntensity x) = True"
| "isLightSetting (SetLightColor c) = True"
| "isLightSetting _ = False"

fun isPlacement :: "string \<Rightarrow> HostCall \<Rightarrow> bool" where
  "isPlacement a (SpawnActorFromObject b l r) = (a = b)"
| "isPlacement a _ = False"

text \<open>
  The offsets that \<open>n\<close> objects receive when \<open>k\<close> random numbers have been drawn before.
\<close>

fun ObjectOffsets :: "Host \<Rightarrow> nat \<Rightarrow> nat \<Rightarrow> FVector list" where
  "ObjectOffsets host k 0 = []"
| "ObjectOffsets host k (Suc n) =
     FVector (Random host k (- 500) 500) (Random host (Suc k) (- 500) 500) 0
       # ObjectOffsets host (Suc (Suc k)) n"

text \<open>What one call of each bridge function adds to the calls of the run.\<close>

definition PlaceCalls :: "Host \<Rightarrow> Run \<Rightarrow> string \<Rightarrow> FVector \<Rightarrow> FRotator \<Rightarrow> HostCall list" where
  "PlaceCalls host s a l r =
     (if \<not> Assets host a then [LoadAsset a]
      else if Spawns host (Calls s @ [LoadAsset a, SpawnActorFromObject a l r])
      then [LoadAsset a, SpawnActorFromObject a l r, TagsAdd ''StoryboardGenerated'']
      else [LoadAsset a, SpawnActorFromObject a l r])"

definition CameraCalls :: "Host \<Rightarrow> Run \<Rightarrow> FVector \<Rightarrow> FRotator \<Rightarrow> rat \<Rightarrow> HostCall list" where
  "CameraCalls host s l r f =
     (if Spawns host (Calls s @ [SpawnCineCameraActor l r])
      then SpawnCineCameraActor l r #
           (if CineCameraComponent host then [SetCurrentFocalLength f] else []) @
           [TagsAdd ''StoryboardCamera'']
      else [SpawnCineCameraActor l r])"

definition LightCalls :: "Host \<Rightarrow> Run \<Rightarrow> string \<Rightarrow> string \<Rightarrow> HostCall list" where
  "LightCalls host s mood tod =
     (if Spawns host (Calls s @ [SpawnPointLight KeyLightLocation ZeroRotator])
      then [SpawnPointLight KeyLightLocation ZeroRotator,
            SetIntensity (LightIntensity mood tod * 1000),
            SetLightColor (LightColor tod),
            TagsAdd ''StoryboardLight'']
      else [SpawnPointLight KeyLightLocation ZeroRotator])"

definition SequenceCalls :: "Host \<Rightarrow> FStoryboardPanel \<Rightarrow> rat \<Rightarrow> HostCall list" where
  "SequenceCalls host Panel Duration =
     [CreatePackage (PackagePath Panel), NewLevelSequence (PackagePath Panel) (SequenceName Panel)] @
     (if NewObjects host
      then (if MovieScene host
            then [SetPlaybackRange 0 (RoundToInt (Duration * DisplayRate host))] else []) @
           [SaveAsset (PackagePath Panel)]
      else [])"

text \<open>The run of \<open>CreateSceneFromPanel\<close> after its two loops, and after the camera.\<close>

definition AfterPlacement :: "Host \<Rightarrow> Run \<Rightarrow> FStoryboardPanel \<Rightarrow> Run" where
  "AfterPlacement host s Panel =
     PlaceObjects host (PlaceCharacters host s Panel 0) (SceneCenter Panel) (Objects Panel)"

definition AfterCamera :: "Host \<Rightarrow> Run \<Rightarrow> FStoryboardPanel \<Rightarrow> Run" where
  "AfterCamera host s Panel =
     snd (CreateCamera host (AfterPlacement host s Panel) (CameraLocation Panel)
            (CameraRotation Panel) 50)"

text \<open>
  A cooperative host has a world, loads every asset, grants every spawn and gives the camera
  its component. On such a host a scene makes the calls \<open>SceneCalls\<close>, where \<open>ds\<close> are the
  offsets of the objects.
\<close>

definition Cooperative :: "Host \<Rightarrow> bool" where
  "Cooperative host =
     (World host \<and> (\<forall>a. Assets host a) \<and> (\<forall>cs. Spawns host cs) \<and> CineCameraComponent host)"

definition CharacterCalls :: "FStoryboardPanel \<Rightarrow> int \<Rightarrow> HostCall list" where
  "CharacterCalls Panel i =
     [LoadAsset Cylinder, SpawnActorFromObject Cylinder (CharLocation Panel i) ZeroRotator,
      TagsAdd ''StoryboardGenerated'']"

definition ObjectCalls :: "FVector \<Rightarrow> FVector \<Rightarrow> HostCall list" where
  "ObjectCalls c d =
     [LoadAsset Cube, SpawnActorFromObject Cube (FVector_plus c d) ZeroRotator,
      TagsAdd ''StoryboardGenerated'']"

definition SceneCalls :: "FStoryboardPanel \<Rightarrow> FVector list \<Rightarrow> HostCall list" where
  "SceneCalls Panel ds =
     concat (map (CharacterCalls Panel) [0..NumCharacters Panel - 1]) @
     concat (map (ObjectCalls (SceneCenter Panel)) ds) @
     [SpawnCineCameraActor (CameraLocation Panel) (CameraRotation Panel),
      SetCurrentFocalLength 50, TagsAdd ''StoryboardCamera'',
      SpawnPointLight KeyLightLocation ZeroRotator,
      SetIntensity (LightIntensity (Mood Panel) (TimeOfDay Panel) * 1000),
      SetLightColor (LightColor (TimeOfDay Panel)), TagsAdd ''StoryboardLight'']"

subsection \<open>A worked example\<close>

text \<open>
  A cooperative host whose random generator counts upwards from the lower bound, a fresh run
  and a panel with two characters and one object.
\<close>

definition DemoHost :: Host where
  "DemoHost = \<lparr>World = True, Assets = (\<lambda>a. True), Spawns = (\<lambda>cs. True),
      CineCameraComponent = True, Random = (\<lambda>k lo hi. lo + int k mod (hi - lo + 1)),
      NewObjects = True, MovieScene = True, DisplayRate = 30\<rparr>"

definition DemoRun :: Run where
  "DemoRun = \<lparr>Drawn = 0, Calls = []\<rparr>"

definition DemoPanel :: FStoryboardPanel where
  "DemoPanel = \<lparr>ImagePath = ''panel_03.png'', Index = 3, ShotType = ''Wide'',
      NumCharacters = 2, Objects = [''chair''], Mood = ''dark'', TimeOfDay = ''night''\<rparr>"

section \<open>Rounding to single precision\<close>

lemma quantum_pos: "0 < quantum n"
  by (induction n rule: quantum.induct) (subst quantum.simps, simp)

lemma quantum_small: "n < 16777216 \<Longrightarrow> quantum n = 1"
  by (subst quantum.simps) simp

lemma quantum_dvd_shift: "a < 16777216 \<Longrightarrow> quantum (a * 2 ^ k) dvd 2 ^ k"
proof (induction k)
  case 0
  then show ?case by (simp add: quantum_small)
next
  case (Suc k)
  show ?case
  proof (cases "a * 2 ^ Suc k < 16777216")
    case True
    then show ?thesis by (simp add: quantum_small)
  next
    case False
    have "quantum (a * 2 ^ Suc k) = 2 * quantum ((a * 2 ^ Suc k) div 2)"
      using False by (subst quantum.simps) simp
    also have "(a * 2 ^ Suc k) div 2 = a * 2 ^ k" by simp
    finally show ?thesis using Suc by simp
  qed
qed

lemma quantum_le: "n < 16777216 * 2 ^ k \<Longrightarrow> quantum n \<le> 2 ^ k"
proof (induction k arbitrary: n)
  case 0
  then show ?case by (simp add: quantum_small)
next
  case (Suc k)
  show ?case
  proof (cases "n < 16777216")
    case True
    then show ?thesis by (simp add: quantum_small)
  next
    case False
    have "quantum n = 2 * quantum (n div 2)"
      using False by (subst quantum.simps) simp
    moreover have "n div 2 < 16777216 * 2 ^ k" using Suc.prems by simp
    ultimately show ?thesis using Suc.IH [of "n div 2"] by simp
  qed
qed

lemma RoundToFloat_exact:
  assumes "int (quantum (nat \<bar>x\<bar>)) dvd x"
  shows "RoundToFloat x = x"
proof -
  have "0 < int (quantum (nat \<bar>x\<bar>))" using quantum_pos by simp
  moreover have "x mod int (quantum (nat \<bar>x\<bar>)) = 0" using assms by simp
  ultimately show ?thesis using assms by (simp add: RoundToFloat_def Let_def)
qed

lemma RoundToFloat_shift:
  assumes "\<bar>m\<bar> < 16777216"
  shows "RoundToFloat (m * 2 ^ k) = m * 2 ^ k"
proof (rule RoundToFloat_exact)
  have "nat \<bar>m * 2 ^ k\<bar> = nat \<bar>m\<bar> * 2 ^ k"
    by (simp add: abs_mult nat_mult_distrib nat_power_eq)
  moreover have "quantum (nat \<bar>m\<bar> * 2 ^ k) dvd 2 ^ k"
    using assms by (intro quantum_dvd_shift) simp
  ultimately have "int (quantum (nat \<bar>m * 2 ^ k\<bar>)) dvd int (2 ^ k)"
    by (simp only: int_dvd_int_iff)
  then show "int (quantum (nat \<bar>m * 2 ^ k\<bar>)) dvd m * 2 ^ k"
    by (simp add: dvd_mult)
qed

lemma RoundToFloat_small: "\<bar>m\<bar> < 16777216 \<Longrightarrow> RoundToFloat m = m"
  using RoundToFloat_shift [of m 0] by simp

lemma RoundToFloat_error: "2 * \<bar>RoundToFloat x - x\<bar> \<le> int (quantum (nat \<bar>x\<bar>))"
proof -
  define q where "q = int (quantum (nat \<bar>x\<bar>))"
  have q: "0 < q" using quantum_pos by (simp add: q_def)
  have x: "x = (x div q) * q + x mod q" by simp
  have r: "0 \<le> x mod q" "x mod q < q" using q by simp_all
  have "RoundToFloat x = (x div q) * q \<and> 2 * (x mod q) \<le> q
     \<or> RoundToFloat x = (x div q + 1) * q \<and> q \<le> 2 * (x mod q)"
    unfolding RoundToFloat_def Let_def q_def [symmetric] by auto
  then show ?thesis
  proof
    assume a: "RoundToFloat x = (x div q) * q \<and> 2 * (x mod q) \<le> q"
    then have "RoundToFloat x - x = - (x mod q)" using x by linarith
    then show ?thesis using a r unfolding q_def [symmetric] by simp
  next
    assume a: "RoundToFloat x = (x div q + 1) * q \<and> q \<le> 2 * (x mod q)"
    then have "RoundToFloat x - x = q - x mod q" using x by (simp add: algebra_simps)
    then show ?thesis using a r unfolding q_def [symmetric] by simp
  qed
qed

lemma RoundToFloat_near:
  assumes "\<bar>x\<bar> < 17179869184"
  shows "\<bar>RoundToFloat x - x\<bar> \<le> 512"
proof -
  have "nat \<bar>x\<bar> < 16777216 * 2 ^ 10" using assms by simp
  then have "quantum (nat \<bar>x\<bar>) \<le> 2 ^ 10" by (rule quantum_le)
  then have "int (quantum (nat \<bar>x\<bar>)) \<le> 1024" by simp
  with RoundToFloat_error [of x] have "2 * \<bar>RoundToFloat x - x\<bar> \<le> 1024"
    by (rule order_trans)
  then show ?thesis by simp
qed

lemma float_of_int32_small: "\<bar>i\<bar> < 16777216 \<Longrightarrow> float_of_int32 i = i"
  by (simp add: float_of_int32_def RoundToFloat_small)

section \<open>String comparison\<close>

lemma FString_eq_iff: "FString_eq a b \<longleftrightarrow> ToLower a = ToLower b"
  unfolding ToLower_def by (induction a b rule: FString_eq.induct) auto

lemma lower_literals:
  "ToLower ''close'' = ''close''" "ToLower ''wide'' = ''wide''"
  "ToLower ''night'' = ''night''" "ToLower ''dawn'' = ''dawn''"
  "ToLower ''dusk'' = ''dusk''" "ToLower ''dark'' = ''dark''"
  "ToLower ''moody'' = ''moody''" "ToLower ''bright'' = ''bright''"
  "ToLower ''cheerful'' = ''cheerful''"
  by code_simp+

lemma lower_examples:
  "ToLower ''Wide'' = ''wide''" "ToLower ''CLOSE'' = ''close''"
  "ToLower ''NIGHT'' = ''night''" "ToLower ''calm'' = ''calm''"
  "ToLower ''Moody'' = ''moody''" "ToLower ''Dusk'' = ''dusk''"
  "ToLower ''noon'' = ''noon''" "ToLower [] = []"
  "ToLower ''medium'' = ''medium''"
  by code_simp+

section \<open>The calls of the bridge functions\<close>

lemma Calls_call [simp]: "Calls (call c s) = Calls s @ [c]"
  by (simp add: call_def)

lemma Drawn_call [simp]: "Drawn (call c s) = Drawn s"
  by (simp add: call_def)

lemma NewCalls_append: "Calls s' = Calls s @ cs \<Longrightarrow> NewCalls s s' = cs"
  by (simp add: NewCalls_def)

lemma filter_NewCalls:
  assumes "\<exists>cs. Calls s' = Calls s @ cs" "filter P (Calls s') = filter P (Calls s) @ E"
  shows "filter P (NewCalls s s') = E"
proof -
  from assms(1) obtain cs where cs: "Calls s' = Calls s @ cs" by blast
  then have "NewCalls s s' = cs" by (rule NewCalls_append)
  moreover from assms(2) cs have "filter P cs = E" by simp
  ultimately show ?thesis by simp
qed

lemma Calls_PlaceActorInScene:
  "Calls (PlaceActorInScene host s a l r) = Calls s @ PlaceCalls host s a l r"
  by (simp add: PlaceActorInScene_def PlaceCalls_def Let_def)

lemma Drawn_PlaceActorInScene [simp]: "Drawn (PlaceActorInScene host s a l r) = Drawn s"
  by (simp add: PlaceActorInScene_def Let_def)

lemma filter_PlaceCalls:
  "filter (isPlacement b) (PlaceCalls host s a l r) =
     (if Assets host a \<and> a = b then [SpawnActorFromObject a l r] else [])"
  by (auto simp add: PlaceCalls_def)

lemma filter_PlaceCalls_other:
  assumes "\<And>a. \<not> P (LoadAsset a)" "\<And>a l r. \<not> P (SpawnActorFromObject a l r)"
    "\<And>t. \<not> P (TagsAdd t)"
  shows "filter P (PlaceCalls host s a l r) = []"
  using assms by (simp add: PlaceCalls_def)

lemma PlaceCalls_Cooperative:
  "Cooperative host \<Longrightarrow>
   PlaceCalls host s a l r =
     [LoadAsset a, SpawnActorFromObject a l r, TagsAdd ''StoryboardGenerated'']"
  by (simp add: PlaceCalls_def Cooperative_def)

lemma PlaceCharacters_step:
  "i < NumCharacters Panel \<Longrightarrow>
   PlaceCharacters host s Panel i =
     PlaceCharacters host (PlaceActorInScene host s Cylinder (CharLocation Panel i) ZeroRotator)
       Panel (i + 1)"
  by (subst PlaceCharacters.simps) simp

lemma PlaceCharacters_done:
  "\<not> i < NumCharacters Panel \<Longrightarrow> PlaceCharacters host s Panel i = s"
  by (subst PlaceCharacters.simps) simp

lemma Calls_PlaceCharacters_ex: "\<exists>cs. Calls (PlaceCharacters host s Panel i) = Calls s @ cs"
proof (induction host s Panel i rule: PlaceCharacters.induct)
  case (1 host s Panel i)
  show ?case
  proof (cases "i < NumCharacters Panel")
    case True
    from 1 [OF True] obtain cs where
      "Calls (PlaceCharacters host
          (PlaceActorInScene host s Cylinder (CharLocation Panel i) ZeroRotator) Panel (i + 1)) =
       Calls (PlaceActorInScene host s Cylinder (CharLocation Panel i) ZeroRotator) @ cs"
      by blast
    then show ?thesis
      by (simp add: PlaceCharacters_step [OF True] Calls_PlaceActorInScene)
  next
    case False
    then show ?thesis by (simp add: PlaceCharacters_done)
  qed
qed

lemma Drawn_PlaceCharacters [simp]: "Drawn (PlaceCharacters host s Panel i) = Drawn s"
proof (induction host s Panel i rule: PlaceCharacters.induct)
  case (1 host s Panel i)
  show ?case
  proof (cases "i < NumCharacters Panel")
    case True
    show ?thesis unfolding PlaceCharacters_step [OF True] 1 [OF True] by simp
  next
    case False
    then show ?thesis by (simp add: PlaceCharacters_done)
  qed
qed

lemma filter_PlaceCharacters_other:
  assumes "\<And>a. \<not> P (LoadAsset a)" "\<And>a l r. \<not> P (SpawnActorFromObject a l r)"
    "\<And>t. \<not> P (TagsAdd t)"
  shows "filter P (Calls (PlaceCharacters host s Panel i)) = filter P (Calls s)"
proof (induction host s Panel i rule: PlaceCharacters.induct)
  case (1 host s Panel i)
  show ?case
  proof (cases "i < NumCharacters Panel")
    case True
    show ?thesis
      unfolding PlaceCharacters_step [OF True] 1 [OF True]
      by (simp add: Calls_PlaceActorInScene filter_PlaceCalls_other [of P, OF assms])
  next
    case False
    then show ?thesis by (simp add: PlaceCharacters_done)
  qed
qed

lemma filter_PlaceCharacters:
  "filter (isPlacement b) (Calls (PlaceCharacters host s Panel i)) =
     filter (isPlacement b) (Calls s) @
       (if Assets host Cylinder \<and> Cylinder = b
        then map (\<lambda>j. SpawnActorFromObject Cylinder (CharLocation Panel j) ZeroRotator)
               [i..NumCharacters Panel - 1]
        else [])"
proof (induction host s Panel i rule: PlaceCharacters.induct)
  case (1 host s Panel i)
  show ?case
  proof (cases "i < NumCharacters Panel")
    case True
    have u: "[i..NumCharacters Panel - 1] = i # [i + 1..NumCharacters Panel - 1]"
      using True by (simp add: upto_rec1)
    show ?thesis
      unfolding PlaceCharacters_step [OF True] 1 [OF True] u
      by (simp add: Calls_PlaceActorInScene filter_PlaceCalls)
  next
    case False
    then show ?thesis by (simp add: PlaceCharacters_done)
  qed
qed

lemma Calls_PlaceCharacters_Cooperative:
  "Cooperative host \<Longrightarrow>
   Calls (PlaceCharacters host s Panel i) =
     Calls s @ concat (map (CharacterCalls Panel) [i..NumCharacters Panel - 1])"
proof (induction host s Panel i rule: PlaceCharacters.induct)
  case (1 host s Panel i)
  show ?case
  proof (cases "i < NumCharacters Panel")
    case True
    have u: "[i..NumCharacters Panel - 1] = i # [i + 1..NumCharacters Panel - 1]"
      using True by (simp add: upto_rec1)
    have pc: "PlaceCalls host s Cylinder (CharLocation Panel i) ZeroRotator =
        CharacterCalls Panel i"
      by (simp add: PlaceCalls_Cooperative [OF "1.prems"] CharacterCalls_def)
    show ?thesis
      unfolding PlaceCharacters_step [OF True] "1.IH" [OF True "1.prems"] u
      by (simp add: Calls_PlaceActorInScene pc)
  next
    case False
    then show ?thesis by (simp add: PlaceCharacters_done)
  qed
qed

lemma Calls_PlaceObjects_ex: "\<exists>cs. Calls (PlaceObjects host s c objs) = Calls s @ cs"
proof (induction objs arbitrary: s)
  case Nil
  then show ?case by simp
next
  case (Cons a objs)
  obtain s' where s': "PlaceObjects host s c (a # objs) = PlaceObjects host s' c objs"
    and c: "\<exists>cs. Calls s' = Calls s @ cs"
    by (simp add: FMath_RandRange_def Calls_PlaceActorInScene Let_def)
  from Cons [of s'] c show ?case unfolding s' by auto
qed

lemma Drawn_PlaceObjects: "Drawn (PlaceObjects host s c objs) = Drawn s + 2 * length objs"
  by (induction objs arbitrary: s) (simp_all add: FMath_RandRange_def Let_def)

lemma filter_PlaceObjects_other:
  assumes "\<And>a. \<not> P (LoadAsset a)" "\<And>a l r. \<not> P (SpawnActorFromObject a l r)"
    "\<And>t. \<not> P (TagsAdd t)"
  shows "filter P (Calls (PlaceObjects host s c objs)) = filter P (Calls s)"
proof (induction objs arbitrary: s)
  case Nil
  then show ?case by simp
next
  case (Cons a objs)
  then show ?case
    by (simp add: FMath_RandRange_def Calls_PlaceActorInScene Let_def
            filter_PlaceCalls_other [of P, OF assms])
qed

lemma filter_PlaceObjects:
  "filter (isPlacement b) (Calls (PlaceObjects host s c objs)) =
     filter (isPlacement b) (Calls s) @
       (if Assets host Cube \<and> Cube = b
        then map (\<lambda>d. SpawnActorFromObject Cube (FVector_plus c d) ZeroRotator)
               (ObjectOffsets host (Drawn s) (length objs))
        else [])"
proof (induction objs arbitrary: s)
  case Nil
  then show ?case by simp
next
  case (Cons a objs)
  then show ?case
    by (simp add: FMath_RandRange_def Calls_PlaceActorInScene Let_def filter_PlaceCalls)
qed

lemma Calls_PlaceObjects_Cooperative:
  assumes "Cooperative host"
  shows "Calls (PlaceObjects host s c objs) =
           Calls s @ concat (map (ObjectCalls c) (ObjectOffsets host (Drawn s) (length objs)))"
proof (induction objs arbitrary: s)
  case Nil
  then show ?case by simp
next
  case (Cons a objs)
  then show ?case
    by (simp add: FMath_RandRange_def Calls_PlaceActorInScene Let_def
          PlaceCalls_Cooperative [OF assms] ObjectCalls_def)
qed

lemma Calls_CreateCamera:
  "World host \<Longrightarrow> Calls (snd (CreateCamera host s l r f)) = Calls s @ CameraCalls host s l r f"
  by (simp add: CreateCamera_def CameraCalls_def Let_def)

lemma Drawn_CreateCamera [simp]: "Drawn (snd (CreateCamera host s l r f)) = Drawn s"
  by (simp add: CreateCamera_def Let_def)

lemma Calls_SetupLighting:
  "World host \<Longrightarrow> Calls (SetupLighting host s mood tod) = Calls s @ LightCalls host s mood tod"
  by (simp add: SetupLighting_def LightCalls_def Let_def)

lemma Drawn_SetupLighting [simp]: "Drawn (SetupLighting host s mood tod) = Drawn s"
  by (simp add: SetupLighting_def Let_def)

lemma filter_CameraCalls_spawn:
  "filter isCameraSpawn (CameraCalls host s l r f) = [SpawnCineCameraActor l r]"
  by (simp add: CameraCalls_def)

lemma filter_CameraCalls_focal:
  "filter isFocalLength (CameraCalls host s l r f) =
     (if Spawns host (Calls s @ [SpawnCineCameraActor l r]) \<and> CineCameraComponent host
      then [SetCurrentFocalLength f] else [])"
  by (simp add: CameraCalls_def)

lemma filter_CameraCalls_placement: "filter (isPlacement b) (CameraCalls host s l r f) = []"
  by (simp add: CameraCalls_def)

lemma filter_LightCalls_spawn:
  "filter isLightSpawn (LightCalls host s mood tod) = [SpawnPointLight KeyLightLocation ZeroRotator]"
  by (simp add: LightCalls_def)

lemma filter_LightCalls_setting:
  "filter isLightSetting (LightCalls host s mood tod) =
     (if Spawns host (Calls s @ [SpawnPointLight KeyLightLocation ZeroRotator])
      then [SetIntensity (LightIntensity mood tod * 1000), SetLightColor (LightColor tod)]
      else [])"
  by (simp add: LightCalls_def)

lemma filter_LightCalls_other:
  "filter isCameraSpawn (LightCalls host s mood tod) = []"
  "filter isFocalLength (LightCalls host s mood tod) = []"
  "filter (isPlacement b) (LightCalls host s mood tod) = []"
  by (simp_all add: LightCalls_def)

lemma Cylinder_neq_Cube: "Cylinder \<noteq> Cube"
  by (simp add: Cylinder_def Cube_def)

subsection \<open>CreateSceneFromPanel as a whole\<close>

lemma CreateSceneFromPanel_World:
  "World host \<Longrightarrow>
   CreateSceneFromPanel host s Panel =
     SetupLighting host (AfterCamera host s Panel) (Mood Panel) (TimeOfDay Panel)"
  by (simp add: CreateSceneFromPanel_def AfterCamera_def AfterPlacement_def Let_def)

lemma Calls_AfterPlacement_ex: "\<exists>cs. Calls (AfterPlacement host s Panel) = Calls s @ cs"
proof -
  obtain cs where a: "Calls (PlaceCharacters host s Panel 0) = Calls s @ cs"
    using Calls_PlaceCharacters_ex by blast
  obtain ds where "Calls (AfterPlacement host s Panel) = Calls (PlaceCharacters host s Panel 0) @ ds"
    unfolding AfterPlacement_def using Calls_PlaceObjects_ex by blast
  with a show ?thesis by simp
qed

lemma Calls_AfterCamera:
  "World host \<Longrightarrow>
   Calls (AfterCamera host s Panel) =
     Calls (AfterPlacement host s Panel) @
     CameraCalls host (AfterPlacement host s Panel) (CameraLocation Panel) (CameraRotation Panel) 50"
  by (simp add: AfterCamera_def Calls_CreateCamera)

lemma Calls_CreateSceneFromPanel:
  "World host \<Longrightarrow>
   Calls (CreateSceneFromPanel host s Panel) =
     Calls (AfterPlacement host s Panel) @
     CameraCalls host (AfterPlacement host s Panel) (CameraLocation Panel) (CameraRotation Panel) 50 @
     LightCalls host (AfterCamera host s Panel) (Mood Panel) (TimeOfDay Panel)"
  by (simp add: CreateSceneFromPanel_World Calls_SetupLighting Calls_AfterCamera)

lemma Calls_CreateSceneFromPanel_ex:
  "\<exists>cs. Calls (CreateSceneFromPanel host s Panel) = Calls s @ cs"
proof (cases "World host")
  case True
  obtain cs where "Calls (AfterPlacement host s Panel) = Calls s @ cs"
    using Calls_AfterPlacement_ex by blast
  then show ?thesis by (simp add: Calls_CreateSceneFromPanel [OF True])
next
  case False
  then show ?thesis by (simp add: CreateSceneFromPanel_def)
qed

lemma Drawn_CreateSceneFromPanel:
  "World host \<Longrightarrow>
   Drawn (CreateSceneFromPanel host s Panel) = Drawn s + 2 * length (Objects Panel)"
  by (simp add: CreateSceneFromPanel_def Let_def Drawn_PlaceObjects)

lemma filter_AfterPlacement_other:
  assumes "\<And>a. \<not> P (LoadAsset a)" "\<And>a l r. \<not> P (SpawnActorFromObject a l r)"
    "\<And>t. \<not> P (TagsAdd t)"
  shows "filter P (Calls (AfterPlacement host s Panel)) = filter P (Calls s)"
  unfolding AfterPlacement_def
  by (simp add: filter_PlaceObjects_other [of P, OF assms]
        filter_PlaceCharacters_other [of P, OF assms])

lemma filter_AfterPlacement:
  "filter (isPlacement b) (Calls (AfterPlacement host s Panel)) =
     filter (isPlacement b) (Calls s) @
       (if Assets host Cylinder \<and> Cylinder = b
        then map (\<lambda>j. SpawnActorFromObject Cylinder (CharLocation Panel j) ZeroRotator)
               [0..NumCharacters Panel - 1]
        else []) @
       (if Assets host Cube \<and> Cube = b
        then map (\<lambda>d. SpawnActorFromObject Cube (FVector_plus (SceneCenter Panel) d) ZeroRotator)
               (ObjectOffsets host (Drawn s) (length (Objects Panel)))
        else [])"
  unfolding AfterPlacement_def
  by (simp add: filter_PlaceObjects filter_PlaceCharacters)

lemma camera_spawn_of_scene:
  assumes "World host"
  shows "filter isCameraSpawn (NewCalls s (CreateSceneFromPanel host s Panel)) =
           [SpawnCineCameraActor (CameraLocation Panel) (CameraRotation Panel)]"
proof (rule filter_NewCalls [OF Calls_CreateSceneFromPanel_ex])
  show "filter isCameraSpawn (Calls (CreateSceneFromPanel host s Panel)) =
          filter isCameraSpawn (Calls s) @
          [SpawnCineCameraActor (CameraLocation Panel) (CameraRotation Panel)]"
    by (simp add: Calls_CreateSceneFromPanel [OF assms] filter_AfterPlacement_other
          filter_CameraCalls_spawn filter_LightCalls_other)
qed

lemma focal_length_of_scene:
  assumes "World host"
  shows "filter isFocalLength (NewCalls s (CreateSceneFromPanel host s Panel)) =
     (if Spawns host (Calls (AfterPlacement host s Panel) @
            [SpawnCineCameraActor (CameraLocation Panel) (CameraRotation Panel)])
         \<and> CineCameraComponent host
      then [SetCurrentFocalLength 50] else [])"
proof (rule filter_NewCalls [OF Calls_CreateSceneFromPanel_ex])
  show "filter isFocalLength (Calls (CreateSceneFromPanel host s Panel)) =
          filter isFocalLength (Calls s) @
          (if Spawns host (Calls (AfterPlacement host s Panel) @
            [SpawnCineCameraActor (CameraLocation Panel) (CameraRotation Panel)])
             \<and> CineCameraComponent host
           then [SetCurrentFocalLength 50] else [])"
    by (simp add: Calls_CreateSceneFromPanel [OF assms] filter_AfterPlacement_other
          filter_CameraCalls_focal filter_LightCalls_other)
qed

lemma placements_of_scene:
  assumes "World host"
  shows "filter (isPlacement b) (NewCalls s (CreateSceneFromPanel host s Panel)) =
       (if Assets host Cylinder \<and> Cylinder = b
        then map (\<lambda>j. SpawnActorFromObject Cylinder (CharLocation Panel j) ZeroRotator)
               [0..NumCharacters Panel - 1]
        else []) @
       (if Assets host Cube \<and> Cube = b
        then map (\<lambda>d. SpawnActorFromObject Cube (FVector_plus (SceneCenter Panel) d) ZeroRotator)
               (ObjectOffsets host (Drawn s) (length (Objects Panel)))
        else [])"
proof (rule filter_NewCalls [OF Calls_CreateSceneFromPanel_ex])
  show "filter (isPlacement b) (Calls (CreateSceneFromPanel host s Panel)) =
     filter (isPlacement b) (Calls s) @
       (if Assets host Cylinder \<and> Cylinder = b
        then map (\<lambda>j. SpawnActorFromObject Cylinder (CharLocation Panel j) ZeroRotator)
               [0..NumCharacters Panel - 1]
        else []) @
       (if Assets host Cube \<and> Cube = b
        then map (\<lambda>d. SpawnActorFromObject Cube (FVector_plus (SceneCenter Panel) d) ZeroRotator)
               (ObjectOffsets host (Drawn s) (length (Objects Panel)))
        else [])"
    by (simp add: Calls_CreateSceneFromPanel [OF assms] filter_AfterPlacement
          filter_CameraCalls_placement filter_LightCalls_other)
qed

lemma NewCalls_Cooperative:
  assumes "Cooperative host"
  shows "NewCalls s (CreateSceneFromPanel host s Panel) =
           SceneCalls Panel (ObjectOffsets host (Drawn s) (length (Objects Panel)))"
proof (rule NewCalls_append)
  have w: "World host" and sp: "\<And>cs. Spawns host cs" and cc: "CineCameraComponent host"
    using assms by (simp_all add: Cooperative_def)
  have p: "Calls (AfterPlacement host s Panel) =
      Calls s @ concat (map (CharacterCalls Panel) [0..NumCharacters Panel - 1]) @
      concat (map (ObjectCalls (SceneCenter Panel))
        (ObjectOffsets host (Drawn s) (length (Objects Panel))))"
    by (simp add: AfterPlacement_def Calls_PlaceObjects_Cooperative [OF assms]
          Calls_PlaceCharacters_Cooperative [OF assms])
  show "Calls (CreateSceneFromPanel host s Panel) =
      Calls s @ SceneCalls Panel (ObjectOffsets host (Drawn s) (length (Objects Panel)))"
    unfolding Calls_CreateSceneFromPanel [OF w] p
    by (simp add: SceneCalls_def CameraCalls_def LightCalls_def sp cc)
qed

lemma filter_ObjectCalls:
  "filter (\<lambda>c. \<not> isPlacement Cube c) (concat (map (ObjectCalls c) ds)) =
     concat (replicate (length ds) [LoadAsset Cube, TagsAdd ''StoryboardGenerated''])"
  by (induction ds) (simp_all add: ObjectCalls_def)

lemma filter_SceneCalls:
  "length ds = length es \<Longrightarrow>
   filter (\<lambda>c. \<not> isPlacement Cube c) (SceneCalls Panel ds) =
   filter (\<lambda>c. \<not> isPlacement Cube c) (SceneCalls Panel es)"
  by (simp add: SceneCalls_def filter_ObjectCalls)

lemma Calls_CreateSequenceForPanel:
  "Calls (snd (CreateSequenceForPanel host s Panel Duration)) =
     Calls s @ SequenceCalls host Panel Duration"
  by (simp add: CreateSequenceForPanel_def SequenceCalls_def Let_def)

section \<open>The resolved parameters\<close>

lemma CameraDistance_table:
  "CameraDistance Panel =
     (if ToLower (ShotType Panel) = ''close'' then 200
      else if ToLower (ShotType Panel) = ''wide'' then 1000 else 500)"
  by (simp add: CameraDistance_def FString_eq_iff lower_literals)

lemma CameraDistance_cases:
  "CameraDistance Panel = 200 \<or> CameraDistance Panel = 500 \<or> CameraDistance Panel = 1000"
  by (simp add: CameraDistance_def)

lemma SceneCenter_YZ [simp]: "Y (SceneCenter Panel) = 0" "Z (SceneCenter Panel) = 0"
  by (simp_all add: SceneCenter_def)

lemma CameraLocation_eq:
  "CameraLocation Panel = FVector (X (SceneCenter Panel) - CameraDistance Panel) 0 160"
  by (simp add: CameraLocation_def FVector_plus_def)

lemma CameraRotation_eq:
  "CameraRotation Panel = Rotation (FVector (CameraDistance Panel) 0 (- 160))"
  by (simp add: CameraRotation_def CameraLocation_eq FVector_minus_def)

lemma TimeOfDayLight_table:
  "TimeOfDayLight tod =
     (if ToLower tod = ''night'' then (FLinearColor 0.4 0.5 0.7 1, 1)
      else if ToLower tod = ''dawn'' \<or> ToLower tod = ''dusk''
      then (FLinearColor 1 0.6 0.3 1, 2)
      else (FLinearColor 1 1 1 1, 3))"
  by (simp add: TimeOfDayLight_def FString_eq_iff lower_literals White_def)

lemma MoodIntensity_table:
  "MoodIntensity mood x =
     x * (if ToLower mood = ''dark'' \<or> ToLower mood = ''moody'' then 1 / 2
          else if ToLower mood = ''bright'' \<or> ToLower mood = ''cheerful''
          then 3 / 2 else 1)"
  by (simp add: MoodIntensity_def FString_eq_iff lower_literals)

lemma SceneCenter_exact:
  assumes "\<bar>Index Panel\<bar> \<le> 134218"
  shows "SceneCenter Panel = FVector (2000 * Index Panel) 0 0"
proof -
  have i: "float_of_int32 (Index Panel) = Index Panel"
    using assms by (intro float_of_int32_small) simp
  have "RoundToFloat (Index Panel * 2000) = Index Panel * 2000"
  proof (cases "\<bar>Index Panel\<bar> \<le> 134217")
    case True
    then have "\<bar>Index Panel * 125\<bar> < 16777216" by (simp add: abs_mult)
    then have "RoundToFloat ((Index Panel * 125) * 2 ^ 4) = (Index Panel * 125) * 2 ^ 4"
      by (rule RoundToFloat_shift)
    then show ?thesis by (simp add: mult.commute)
  next
    case False
    with assms have "Index Panel = 134218 \<or> Index Panel = - 134218" by linarith
    moreover have "RoundToFloat (8388625 * 2 ^ 5) = 8388625 * 2 ^ 5"
      by (rule RoundToFloat_shift) simp
    moreover have "RoundToFloat ((- 8388625) * 2 ^ 5) = (- 8388625) * 2 ^ 5"
      by (rule RoundToFloat_shift) simp
    ultimately show ?thesis by auto
  qed
  then show ?thesis by (simp add: SceneCenter_def float_mul_def i mult.commute)
qed

lemma SceneCenter_X_near:
  assumes "\<bar>Index Panel\<bar> \<le> 8589934"
  shows "\<bar>X (SceneCenter Panel) - 2000 * Index Panel\<bar> \<le> 512"
proof -
  have i: "float_of_int32 (Index Panel) = Index Panel"
    using assms by (intro float_of_int32_small) simp
  have "\<bar>Index Panel * 2000\<bar> < 17179869184" using assms by (simp add: abs_mult)
  from RoundToFloat_near [OF this] show ?thesis
    by (simp add: SceneCenter_def float_mul_def i mult.commute)
qed

lemma SceneCenter_strict:
  assumes "\<bar>Index P\<bar> \<le> 8589934" "\<bar>Index Q\<bar> \<le> 8589934" "Index P < Index Q"
  shows "X (SceneCenter P) < X (SceneCenter Q)"
  using SceneCenter_X_near [OF assms(1)] SceneCenter_X_near [OF assms(2)] assms(3)
  by linarith

lemma CharOffset_exact:
  assumes "0 \<le> i" "i < NumCharacters Panel" "NumCharacters Panel \<le> 223697"
  shows "CharOffset Panel i = i * 150 - (NumCharacters Panel - 1) * 75"
proof -
  have i: "float_of_int32 i = i"
    using assms by (intro float_of_int32_small) simp
  have n: "float_of_int32 (NumCharacters Panel - 1) = NumCharacters Panel - 1"
    using assms by (intro float_of_int32_small) simp
  have "\<bar>i * 75\<bar> < 16777216" using assms by simp
  then have "RoundToFloat ((i * 75) * 2 ^ 1) = (i * 75) * 2 ^ 1"
    by (rule RoundToFloat_shift)
  then have a: "RoundToFloat (i * 150) = i * 150" by (simp add: mult.commute)
  have "\<bar>(NumCharacters Panel - 1) * 75\<bar> < 16777216" using assms by simp
  then have b: "RoundToFloat ((NumCharacters Panel - 1) * 75) = (NumCharacters Panel - 1) * 75"
    by (rule RoundToFloat_small)
  have "\<bar>i * 150 - (NumCharacters Panel - 1) * 75\<bar> < 16777216" using assms by simp
  then have c: "RoundToFloat (i * 150 - (NumCharacters Panel - 1) * 75) =
      i * 150 - (NumCharacters Panel - 1) * 75"
    by (rule RoundToFloat_small)
  show ?thesis
    by (simp only: CharOffset_def float_sub_def float_mul_def i n a b c)
qed

lemma map_upto_cong:
  assumes "\<And>i. a \<le> i \<Longrightarrow> i \<le> b \<Longrightarrow> f i = g i"
  shows "map f [a..b] = map g [a..b]"
  using assms by (intro map_cong) auto

lemma rev_map_upto: "rev (map f [0..n]) = map (\<lambda>i. f (n - i)) [0..n]"
proof (rule nth_equalityI)
  show "length (rev (map f [0..n])) = length (map (\<lambda>i. f (n - i)) [0..n])" by simp
next
  fix k assume "k < length (rev (map f [0..n]))"
  then have k: "k < nat (n + 1)" by simp
  then have k1: "nat (n + 1) - Suc k < nat (n + 1)" by simp
  have e: "int (nat (n + 1) - Suc k) = n - int k" using k by linarith
  show "rev (map f [0..n]) ! k = map (\<lambda>i. f (n - i)) [0..n] ! k"
    using k k1 by (simp add: rev_nth e)
qed

lemma ObjectOffsets_length [simp]: "length (ObjectOffsets host k n) = n"
  by (induction n arbitrary: k) simp_all

lemma ObjectOffsets_bounds:
  assumes "RandRange_contract host" "d \<in> set (ObjectOffsets host k n)"
  shows "- 500 \<le> X d \<and> X d \<le> 500 \<and> - 500 \<le> Y d \<and> Y d \<le> 500 \<and> Z d = 0"
  using assms(2)
proof (induction n arbitrary: k)
  case 0
  then show ?case by simp
next
  case (Suc n)
  have r: "- 500 \<le> Random host j (- 500) 500 \<and> Random host j (- 500) 500 \<le> 500" for j
    using assms(1) unfolding RandRange_contract_def by simp
  from Suc show ?case using r [of k] r [of "Suc k"] by auto
qed

lemma digit_char_simps:
  "digit_char 0 = CHR ''0''" "digit_char 1 = CHR ''1''" "digit_char 2 = CHR ''2''"
  "digit_char 3 = CHR ''3''" "digit_char 4 = CHR ''4''" "digit_char 5 = CHR ''5''"
  "digit_char 6 = CHR ''6''" "digit_char 7 = CHR ''7''" "digit_char 8 = CHR ''8''"
  "digit_char 9 = CHR ''9''" "digit_char (Suc 0) = CHR ''1''"
  by code_simp+

lemma decimal_small: "n < 10 \<Longrightarrow> decimal n = [digit_char n]"
  by (subst decimal.simps) simp

lemma decimal_large: "10 \<le> n \<Longrightarrow> decimal n = decimal (n div 10) @ [digit_char (n mod 10)]"
  by (subst decimal.simps) simp

lemma decimal_two:
  assumes "10 \<le> n" "n < 100"
  shows "decimal n = [digit_char (n div 10), digit_char (n mod 10)]"
proof -
  have "n div 10 < 10" using assms by simp
  then have "decimal (n div 10) = [digit_char (n div 10)]" by (rule decimal_small)
  then show ?thesis unfolding decimal_large [OF assms(1)] by simp
qed

lemma decimal_not_Nil: "decimal n \<noteq> []"
proof (cases "n < 10")
  case True
  then show ?thesis unfolding decimal_small [OF True] by simp
next
  case False
  then have "10 \<le> n" by simp
  then show ?thesis unfolding decimal_large [OF \<open>10 \<le> n\<close>] by simp
qed

lemma length_decimal_ge2:
  assumes "10 \<le> n"
  shows "2 \<le> length (decimal n)"
proof -
  have "decimal (n div 10) \<noteq> []" by (rule decimal_not_Nil)
  then show ?thesis unfolding decimal_large [OF assms]
    by (cases "decimal (n div 10)") simp_all
qed

lemma length_decimal_ge3:
  assumes "100 \<le> n"
  shows "3 \<le> length (decimal n)"
proof -
  have "10 \<le> n" "10 \<le> n div 10" using assms by simp_all
  from length_decimal_ge2 [OF this(2)] show ?thesis
    unfolding decimal_large [OF \<open>10 \<le> n\<close>] by simp
qed

lemma Printf_02d_two_digits:
  assumes "0 \<le> n" "n \<le> 99"
  shows "Printf_02d n = [digit_char (nat n div 10), digit_char (nat n mod 10)]"
proof (cases "n < 10")
  case True
  then show ?thesis using assms
    by (simp add: Printf_02d_def decimal_small digit_char_simps)
next
  case False
  then have "10 \<le> nat n" "nat n < 100" using assms by simp_all
  then show ?thesis using assms by (simp add: Printf_02d_def decimal_two)
qed

lemma Printf_02d_large:
  assumes "100 \<le> n"
  shows "Printf_02d n = decimal (nat n)"
proof -
  have "100 \<le> nat n" using assms by simp
  then have "3 \<le> length (decimal (nat n))" by (rule length_decimal_ge3)
  then show ?thesis using assms by (simp add: Printf_02d_def)
qed

section \<open>The worked example, evaluated\<close>

lemma DemoHost_simps [simp]:
  "World DemoHost" "Assets DemoHost a" "Spawns DemoHost cs" "CineCameraComponent DemoHost"
  "Random DemoHost k lo hi = lo + int k mod (hi - lo + 1)"
  "NewObjects DemoHost" "MovieScene DemoHost" "DisplayRate DemoHost = 30"
  by (simp_all add: DemoHost_def)

lemma DemoPanel_simps [simp]:
  "Index DemoPanel = 3" "ShotType DemoPanel = ''Wide''" "NumCharacters DemoPanel = 2"
  "Objects DemoPanel = [''chair'']" "Mood DemoPanel = ''dark''" "TimeOfDay DemoPanel = ''night''"
  by (simp_all add: DemoPanel_def)

lemma DemoRun_simps [simp]: "Drawn DemoRun = 0" "Calls DemoRun = []"
  by (simp_all add: DemoRun_def)

lemma DemoHost_Cooperative: "Cooperative DemoHost"
  by (simp add: Cooperative_def)

lemma DemoHost_contract: "RandRange_contract DemoHost"
  unfolding RandRange_contract_def
proof (intro allI impI)
  fix k :: nat and lo hi :: int
  assume "lo \<le> hi"
  then have p: "0 < hi - lo + 1" by simp
  have "0 \<le> int k mod (hi - lo + 1)" "int k mod (hi - lo + 1) < hi - lo + 1"
    by (rule pos_mod_sign [OF p], rule pos_mod_bound [OF p])
  moreover have "Random DemoHost k lo hi = lo + int k mod (hi - lo + 1)" by simp
  ultimately show "lo \<le> Random DemoHost k lo hi \<and> Random DemoHost k lo hi \<le> hi"
    by linarith
qed

lemma SceneCenter_Demo: "SceneCenter DemoPanel = FVector 6000 0 0"
  by (simp add: SceneCenter_def float_mul_def float_of_int32_def RoundToFloat_def
        quantum.simps Let_def)

lemma CharOffset_Demo: "CharOffset DemoPanel 0 = - 75" "CharOffset DemoPanel 1 = 75"
  by (simp_all add: CharOffset_def float_sub_def float_mul_def float_of_int32_def
        RoundToFloat_def quantum.simps Let_def)

lemma ObjectOffsets_Demo:
  "ObjectOffsets DemoHost 0 (Suc 0) = [FVector (- 500) (- 499) 0]"
  "ObjectOffsets DemoHost 2 (Suc 0) = [FVector (- 498) (- 497) 0]"
  by simp_all

section \<open>Camera distance from shot type\<close>

text \<open>
  C1. Where the editor has a world, \<open>CreateSceneFromPanel\<close> asks for exactly one camera, at
  the scene centre moved back by the camera distance and up by 160. The distance is 200 when
  the shot type is \<^verbatim>\<open>close\<close>, 1000 when it is \<^verbatim>\<open>wide\<close> and 500 for every other string, the
  empty one included; the comparison is the engine's and ignores the case of ASCII
  letters. No shot type makes the function fail.
\<close>

theorem camera_distance_by_shot_type:
  assumes "World host"
  shows "CameraDistance Panel =
           (if ToLower (ShotType Panel) = ''close'' then 200
            else if ToLower (ShotType Panel) = ''wide'' then 1000 else 500) \<and>
         filter isCameraSpawn (NewCalls s (CreateSceneFromPanel host s Panel)) =
           [SpawnCineCameraActor
              (FVector (X (SceneCenter Panel) - CameraDistance Panel) 0 160)
              (CameraRotation Panel)]"
  using camera_spawn_of_scene [OF assms, of s Panel]
  by (simp add: CameraDistance_table CameraLocation_eq)

theorem camera_distance_by_shot_type_witness:
  "World DemoHost \<and> CameraDistance DemoPanel = 1000 \<and>
   CameraDistance (DemoPanel\<lparr>ShotType := ''close''\<rparr>) = 200 \<and>
   CameraDistance (DemoPanel\<lparr>ShotType := ''''\<rparr>) = 500 \<and>
   filter isCameraSpawn (NewCalls DemoRun (CreateSceneFromPanel DemoHost DemoRun DemoPanel)) =
     [SpawnCineCameraActor (FVector 5000 0 160) (Rotation (FVector 1000 0 (- 160)))]"
  using camera_distance_by_shot_type [of DemoHost DemoPanel DemoRun]
    camera_distance_by_shot_type [of DemoHost "DemoPanel\<lparr>ShotType := ''close''\<rparr>" DemoRun]
    camera_distance_by_shot_type [of DemoHost "DemoPanel\<lparr>ShotType := ''''\<rparr>" DemoRun]
  by (simp add: lower_examples lower_literals SceneCenter_Demo CameraRotation_eq)

text \<open>
  The shot type \<^verbatim>\<open>CLOSE\<close> is neither of the two strings, yet the distance is 200 and the
  camera stands 200 behind the scene centre.
\<close>

theorem shot_type_upper_case_counterexample:
  "ShotType (DemoPanel\<lparr>ShotType := ''CLOSE''\<rparr>) \<noteq> ''close'' \<and>
   ShotType (DemoPanel\<lparr>ShotType := ''CLOSE''\<rparr>) \<noteq> ''wide'' \<and>
   CameraDistance (DemoPanel\<lparr>ShotType := ''CLOSE''\<rparr>) = 200 \<and>
   CameraDistance (DemoPanel\<lparr>ShotType := ''CLOSE''\<rparr>) \<noteq> 500 \<and>
   filter isCameraSpawn
     (NewCalls DemoRun
        (CreateSceneFromPanel DemoHost DemoRun (DemoPanel\<lparr>ShotType := ''CLOSE''\<rparr>))) =
     [SpawnCineCameraActor (FVector 5800 0 160) (Rotation (FVector 200 0 (- 160)))]"
proof -
  have w: "World DemoHost" by simp
  have c: "SceneCenter (DemoPanel\<lparr>ShotType := ''CLOSE''\<rparr>) = FVector 6000 0 0"
    using SceneCenter_Demo by (simp add: SceneCenter_def)
  show ?thesis
    using camera_spawn_of_scene [OF w, of DemoRun "DemoPanel\<lparr>ShotType := ''CLOSE''\<rparr>"]
    by (simp add: CameraDistance_table lower_examples CameraLocation_eq CameraRotation_eq c)
qed

section \<open>Light colour and intensity\<close>

text \<open>
  C2. The intensity that \<open>SetupLighting\<close> resolves is the base of the time of day times the
  multiplier of the mood: the base is 1 with colour (0.4, 0.5, 0.7) for \<^verbatim>\<open>night\<close>, 2 with
  colour (1.0, 0.6, 0.3) for \<^verbatim>\<open>dawn\<close> and \<^verbatim>\<open>dusk\<close>, and 3 with white otherwise; the
  multiplier is 0.5 for \<^verbatim>\<open>dark\<close> and \<^verbatim>\<open>moody\<close>, 1.5 for \<^verbatim>\<open>bright\<close> and \<^verbatim>\<open>cheerful\<close>, and 1
  otherwise. Both strings are compared ignoring the case of ASCII letters.
\<close>

theorem light_intensity_is_base_times_multiplier:
  "LightIntensity mood tod =
     (if ToLower tod = ''night'' then 1
      else if ToLower tod = ''dawn'' \<or> ToLower tod = ''dusk'' then 2 else 3) *
     (if ToLower mood = ''dark'' \<or> ToLower mood = ''moody'' then 1 / 2
      else if ToLower mood = ''bright'' \<or> ToLower mood = ''cheerful''
      then 3 / 2 else 1) \<and>
   LightColor tod =
     (if ToLower tod = ''night'' then FLinearColor 0.4 0.5 0.7 1
      else if ToLower tod = ''dawn'' \<or> ToLower tod = ''dusk''
      then FLinearColor 1 0.6 0.3 1
      else FLinearColor 1 1 1 1)"
  by (simp add: LightIntensity_def LightColor_def TimeOfDayLight_table MoodIntensity_table)

theorem light_intensity_is_base_times_multiplier_witness:
  "LightIntensity ''Moody'' ''Dusk'' = 1 \<and> LightColor ''Dusk'' = FLinearColor 1 0.6 0.3 1 \<and>
   LightIntensity ''bright'' ''noon'' = 9 / 2 \<and> LightColor ''noon'' = FLinearColor 1 1 1 1"
  using light_intensity_is_base_times_multiplier [of "''Moody''" "''Dusk''"]
    light_intensity_is_base_times_multiplier [of "''bright''" "''noon''"]
  by (simp add: lower_examples lower_literals)

text \<open>
  The time of day \<^verbatim>\<open>NIGHT\<close> is none of the three strings and the mood \<^verbatim>\<open>calm\<close> none of the
  four, yet the intensity is 1 and not 3, and the colour is that of the night and not white.
\<close>

theorem time_of_day_upper_case_counterexample:
  "''NIGHT'' \<noteq> ''night'' \<and> ''NIGHT'' \<noteq> ''dawn'' \<and> ''NIGHT'' \<noteq> ''dusk'' \<and>
   ''calm'' \<noteq> ''dark'' \<and> ''calm'' \<noteq> ''moody'' \<and> ''calm'' \<noteq> ''bright'' \<and>
   ''calm'' \<noteq> ''cheerful'' \<and>
   LightIntensity ''calm'' ''NIGHT'' = 1 \<and> LightIntensity ''calm'' ''NIGHT'' \<noteq> 3 * 1 \<and>
   LightColor ''NIGHT'' = FLinearColor 0.4 0.5 0.7 1 \<and> LightColor ''NIGHT'' \<noteq> White"
  by (simp add: LightIntensity_def LightColor_def TimeOfDayLight_table MoodIntensity_table
        lower_examples White_def)

section \<open>Two runs on the same panel\<close>

text \<open>
  C3. On cooperative hosts two runs of \<open>CreateSceneFromPanel\<close> on the same panel make the
  same calls apart from the object placements: the same character placements, the same
  camera with the same focal length, the same light with the same intensity and colour. The
  object placements are the scene centre plus the offsets the random generator returns, so
  the two runs agree on them, and then on every call, when the generator returns the same
  numbers in both.
\<close>

theorem scene_repeatable_apart_from_object_offsets:
  assumes "Cooperative h1" "Cooperative h2"
  shows "filter (\<lambda>c. \<not> isPlacement Cube c) (NewCalls s1 (CreateSceneFromPanel h1 s1 Panel)) =
         filter (\<lambda>c. \<not> isPlacement Cube c) (NewCalls s2 (CreateSceneFromPanel h2 s2 Panel)) \<and>
         filter (isPlacement Cube) (NewCalls s1 (CreateSceneFromPanel h1 s1 Panel)) =
           map (\<lambda>d. SpawnActorFromObject Cube (FVector_plus (SceneCenter Panel) d) ZeroRotator)
             (ObjectOffsets h1 (Drawn s1) (length (Objects Panel))) \<and>
         (ObjectOffsets h1 (Drawn s1) (length (Objects Panel)) =
          ObjectOffsets h2 (Drawn s2) (length (Objects Panel)) \<longrightarrow>
            NewCalls s1 (CreateSceneFromPanel h1 s1 Panel) =
            NewCalls s2 (CreateSceneFromPanel h2 s2 Panel))"
proof -
  have w: "World h1" and a: "Assets h1 Cube"
    using assms(1) by (simp_all add: Cooperative_def)
  have 1: "filter (\<lambda>c. \<not> isPlacement Cube c) (NewCalls s1 (CreateSceneFromPanel h1 s1 Panel)) =
         filter (\<lambda>c. \<not> isPlacement Cube c) (NewCalls s2 (CreateSceneFromPanel h2 s2 Panel))"
    unfolding NewCalls_Cooperative [OF assms(1)] NewCalls_Cooperative [OF assms(2)]
    by (rule filter_SceneCalls) simp
  have 2: "filter (isPlacement Cube) (NewCalls s1 (CreateSceneFromPanel h1 s1 Panel)) =
           map (\<lambda>d. SpawnActorFromObject Cube (FVector_plus (SceneCenter Panel) d) ZeroRotator)
             (ObjectOffsets h1 (Drawn s1) (length (Objects Panel)))"
    using placements_of_scene [OF w, of Cube s1 Panel] a Cylinder_neq_Cube by simp
  have 3: "ObjectOffsets h1 (Drawn s1) (length (Objects Panel)) =
          ObjectOffsets h2 (Drawn s2) (length (Objects Panel)) \<longrightarrow>
            NewCalls s1 (CreateSceneFromPanel h1 s1 Panel) =
            NewCalls s2 (CreateSceneFromPanel h2 s2 Panel)"
    unfolding NewCalls_Cooperative [OF assms(1)] NewCalls_Cooperative [OF assms(2)] by simp
  from 1 2 3 show ?thesis by blast
qed

text \<open>
  The generator of the example repeats after 1001 numbers: a run that has drawn 1001 numbers
  makes the same calls as a fresh one.
\<close>

theorem scene_repeatable_apart_from_object_offsets_witness:
  "Cooperative DemoHost \<and>
   ObjectOffsets DemoHost (Drawn DemoRun) (length (Objects DemoPanel)) =
     ObjectOffsets DemoHost (Drawn (DemoRun\<lparr>Drawn := 1001\<rparr>)) (length (Objects DemoPanel)) \<and>
   NewCalls DemoRun (CreateSceneFromPanel DemoHost DemoRun DemoPanel) =
     NewCalls (DemoRun\<lparr>Drawn := 1001\<rparr>)
       (CreateSceneFromPanel DemoHost (DemoRun\<lparr>Drawn := 1001\<rparr>) DemoPanel) \<and>
   filter (isPlacement Cube) (NewCalls DemoRun (CreateSceneFromPanel DemoHost DemoRun DemoPanel)) =
     [SpawnActorFromObject Cube (FVector 5500 (- 499) 0) ZeroRotator]"
proof -
  note t = scene_repeatable_apart_from_object_offsets
    [OF DemoHost_Cooperative DemoHost_Cooperative, of DemoRun DemoPanel "DemoRun\<lparr>Drawn := 1001\<rparr>"]
  have o: "ObjectOffsets DemoHost (Drawn DemoRun) (length (Objects DemoPanel)) =
     ObjectOffsets DemoHost (Drawn (DemoRun\<lparr>Drawn := 1001\<rparr>)) (length (Objects DemoPanel))"
    by simp
  from t o have e: "NewCalls DemoRun (CreateSceneFromPanel DemoHost DemoRun DemoPanel) =
     NewCalls (DemoRun\<lparr>Drawn := 1001\<rparr>)
       (CreateSceneFromPanel DemoHost (DemoRun\<lparr>Drawn := 1001\<rparr>) DemoPanel)"
    by blast
  from t have "filter (isPlacement Cube)
       (NewCalls DemoRun (CreateSceneFromPanel DemoHost DemoRun DemoPanel)) =
     map (\<lambda>d. SpawnActorFromObject Cube (FVector_plus (SceneCenter DemoPanel) d) ZeroRotator)
       (ObjectOffsets DemoHost (Drawn DemoRun) (length (Objects DemoPanel)))"
    by blast
  then have f: "filter (isPlacement Cube)
       (NewCalls DemoRun (CreateSceneFromPanel DemoHost DemoRun DemoPanel)) =
     [SpawnActorFromObject Cube (FVector 5500 (- 499) 0) ZeroRotator]"
    by (simp add: SceneCenter_Demo FVector_plus_def)
  from DemoHost_Cooperative o e f show ?thesis by blast
qed

text \<open>
  Two runs, one after the other on the same host and the same panel: the object is placed at
  (5500, -499, 0) first and at (5502, -497, 0) next.
\<close>

theorem object_placement_differs_between_runs_counterexample:
  "filter (isPlacement Cube) (NewCalls DemoRun (CreateSceneFromPanel DemoHost DemoRun DemoPanel)) =
     [SpawnActorFromObject Cube (FVector 5500 (- 499) 0) ZeroRotator] \<and>
   filter (isPlacement Cube)
     (NewCalls (CreateSceneFromPanel DemoHost DemoRun DemoPanel)
        (CreateSceneFromPanel DemoHost (CreateSceneFromPanel DemoHost DemoRun DemoPanel) DemoPanel)) =
     [SpawnActorFromObject Cube (FVector 5502 (- 497) 0) ZeroRotator]"
proof -
  have w: "World DemoHost" by simp
  have d: "Drawn (CreateSceneFromPanel DemoHost DemoRun DemoPanel) = 2"
    by (simp add: Drawn_CreateSceneFromPanel)
  show ?thesis
    using placements_of_scene [OF w, of Cube DemoRun DemoPanel]
      placements_of_scene [OF w, of Cube "CreateSceneFromPanel DemoHost DemoRun DemoPanel" DemoPanel]
      Cylinder_neq_Cube
    by (simp add: d ObjectOffsets_Demo SceneCenter_Demo FVector_plus_def)
qed

section \<open>Character placement\<close>

text \<open>
  C4. For a panel with between 1 and 223697 characters, on a host with a world that loads
  the cylinder, \<open>CreateSceneFromPanel\<close> places one cylinder per character at the scene
  centre moved along the second axis by the offset of the character. The offset of
  character \<open>i\<close> is \<open>i * 150 - (N - 1) * 75\<close>, neighbouring offsets are 150 apart, and the
  offsets are symmetric around zero: negating them reverses their list, so their multiset is
  closed under negation.
\<close>

theorem characters_evenly_spaced_and_centred:
  assumes "World host" "Assets host Cylinder"
    "1 \<le> NumCharacters Panel" "NumCharacters Panel \<le> 223697"
  shows "filter (isPlacement Cylinder) (NewCalls s (CreateSceneFromPanel host s Panel)) =
           map (\<lambda>i. SpawnActorFromObject Cylinder
                  (FVector_plus (SceneCenter Panel) (FVector 0 (CharOffset Panel i) 0))
                  ZeroRotator)
             [0..NumCharacters Panel - 1] \<and>
         map (CharOffset Panel) [0..NumCharacters Panel - 1] =
           map (\<lambda>i. i * 150 - (NumCharacters Panel - 1) * 75) [0..NumCharacters Panel - 1] \<and>
         (\<forall>i. 0 \<le> i \<and> i + 1 < NumCharacters Panel \<longrightarrow>
            CharOffset Panel (i + 1) - CharOffset Panel i = 150) \<and>
         map uminus (map (CharOffset Panel) [0..NumCharacters Panel - 1]) =
           rev (map (CharOffset Panel) [0..NumCharacters Panel - 1]) \<and>
         image_mset uminus (mset (map (CharOffset Panel) [0..NumCharacters Panel - 1])) =
           mset (map (CharOffset Panel) [0..NumCharacters Panel - 1])"
proof -
  let ?n = "NumCharacters Panel - 1"
  let ?offs = "map (CharOffset Panel) [0..?n]"
  have p: "filter (isPlacement Cylinder) (NewCalls s (CreateSceneFromPanel host s Panel)) =
           map (\<lambda>i. SpawnActorFromObject Cylinder
                  (FVector_plus (SceneCenter Panel) (FVector 0 (CharOffset Panel i) 0))
                  ZeroRotator) [0..?n]"
    using placements_of_scene [OF assms(1), of Cylinder s Panel] assms(2) Cylinder_neq_Cube
    by (simp add: CharLocation_def)
  have o: "?offs = map (\<lambda>i. i * 150 - ?n * 75) [0..?n]"
    using assms(4) by (intro map_upto_cong CharOffset_exact) simp_all
  have d: "\<forall>i. 0 \<le> i \<and> i + 1 < NumCharacters Panel \<longrightarrow>
            CharOffset Panel (i + 1) - CharOffset Panel i = 150"
    using assms(4) by (simp add: CharOffset_exact)
  have "rev ?offs = map (\<lambda>i. (?n - i) * 150 - ?n * 75) [0..?n]"
    unfolding o by (rule rev_map_upto)
  also have "\<dots> = map uminus (map (\<lambda>i. i * 150 - ?n * 75) [0..?n])"
    by (simp add: algebra_simps)
  finally have r: "map uminus ?offs = rev ?offs" unfolding o by simp
  have "image_mset uminus (mset ?offs) = mset (map uminus ?offs)"
    by (rule mset_map [symmetric])
  also have "\<dots> = mset ?offs" unfolding r by simp
  finally have m: "image_mset uminus (mset ?offs) = mset ?offs" .
  from p o d r m show ?thesis by blast
qed

theorem characters_evenly_spaced_and_centred_witness:
  "World DemoHost \<and> Assets DemoHost Cylinder \<and>
   1 \<le> NumCharacters DemoPanel \<and> NumCharacters DemoPanel \<le> 223697 \<and>
   filter (isPlacement Cylinder)
       (NewCalls DemoRun (CreateSceneFromPanel DemoHost DemoRun DemoPanel)) =
     [SpawnActorFromObject Cylinder (FVector 6000 (- 75) 0) ZeroRotator,
      SpawnActorFromObject Cylinder (FVector 6000 75 0) ZeroRotator] \<and>
   map (CharOffset DemoPanel) [0..NumCharacters DemoPanel - 1] = [- 75, 75] \<and>
   (0::int) \<le> 0 \<and> 0 + 1 < NumCharacters DemoPanel \<and>
   CharOffset DemoPanel (0 + 1) - CharOffset DemoPanel 0 = 150"
proof -
  have u: "[0..1] = [0, 1::int]" by (simp add: upto_rec1)
  show ?thesis
    using characters_evenly_spaced_and_centred [of DemoHost DemoPanel DemoRun]
    by (simp add: u SceneCenter_Demo FVector_plus_def)
qed

text \<open>
  With 223698 characters the offset of the first one is not \<open>0 * 150 - 223697 * 75\<close>: that
  number, -16777275, is no \<^verbatim>\<open>float\<close>, and the subtrahend is rounded to 16777276.
\<close>

theorem character_offset_rounding_counterexample:
  "1 \<le> NumCharacters (DemoPanel\<lparr>NumCharacters := 223698\<rparr>) \<and>
   CharOffset (DemoPanel\<lparr>NumCharacters := 223698\<rparr>) 0 = - 16777276 \<and>
   0 * 150 - (NumCharacters (DemoPanel\<lparr>NumCharacters := 223698\<rparr>) - 1) * 75 = - 16777275"
  by (simp add: CharOffset_def float_sub_def float_mul_def float_of_int32_def
        RoundToFloat_def quantum.simps Let_def)

section \<open>Scene centre\<close>

text \<open>
  C5. The scene centre depends on the panel index only and lies on the first axis. For
  indices between -8589934 and 8589934 it is strictly increasing in the index, so distinct
  indices have distinct centres; for indices between -134218 and 134218 it is exactly 2000
  times the index, so neighbouring panels are 2000 apart.
\<close>

theorem scene_center_by_index:
  "(Index P = Index Q \<longrightarrow> SceneCenter P = SceneCenter Q) \<and>
   Y (SceneCenter P) = 0 \<and> Z (SceneCenter P) = 0 \<and>
   (\<bar>Index P\<bar> \<le> 8589934 \<and> \<bar>Index Q\<bar> \<le> 8589934 \<and> Index P < Index Q \<longrightarrow>
      X (SceneCenter P) < X (SceneCenter Q)) \<and>
   (\<bar>Index P\<bar> \<le> 8589934 \<and> \<bar>Index Q\<bar> \<le> 8589934 \<and> Index P \<noteq> Index Q \<longrightarrow>
      SceneCenter P \<noteq> SceneCenter Q) \<and>
   (\<bar>Index P\<bar> \<le> 134218 \<longrightarrow> SceneCenter P = FVector (2000 * Index P) 0 0) \<and>
   (\<bar>Index P\<bar> \<le> 134218 \<and> \<bar>Index Q\<bar> \<le> 134218 \<and> Index Q = Index P + 1 \<longrightarrow>
      X (SceneCenter Q) - X (SceneCenter P) = 2000)"
proof -
  have a: "Index P = Index Q \<longrightarrow> SceneCenter P = SceneCenter Q"
    by (simp add: SceneCenter_def)
  have b: "\<bar>Index P\<bar> \<le> 8589934 \<and> \<bar>Index Q\<bar> \<le> 8589934 \<and> Index P < Index Q \<longrightarrow>
      X (SceneCenter P) < X (SceneCenter Q)"
    using SceneCenter_strict [of P Q] by simp
  have b': "\<bar>Index P\<bar> \<le> 8589934 \<and> \<bar>Index Q\<bar> \<le> 8589934 \<and> Index Q < Index P \<longrightarrow>
      X (SceneCenter Q) < X (SceneCenter P)"
    using SceneCenter_strict [of Q P] by simp
  have c: "\<bar>Index P\<bar> \<le> 8589934 \<and> \<bar>Index Q\<bar> \<le> 8589934 \<and> Index P \<noteq> Index Q \<longrightarrow>
      SceneCenter P \<noteq> SceneCenter Q"
    using b b' by (cases "Index P < Index Q") auto
  have d: "\<bar>Index P\<bar> \<le> 134218 \<longrightarrow> SceneCenter P = FVector (2000 * Index P) 0 0"
    using SceneCenter_exact by simp
  have e: "\<bar>Index P\<bar> \<le> 134218 \<and> \<bar>Index Q\<bar> \<le> 134218 \<and> Index Q = Index P + 1 \<longrightarrow>
            X (SceneCenter Q) - X (SceneCenter P) = 2000"
    using SceneCenter_exact [of P] SceneCenter_exact [of Q] by auto
  from a b c d e show ?thesis by simp
qed

theorem scene_center_by_index_witness:
  "\<bar>Index DemoPanel\<bar> \<le> 134218 \<and> \<bar>Index (DemoPanel\<lparr>Index := 4\<rparr>)\<bar> \<le> 134218 \<and>
   Index DemoPanel = Index (DemoPanel\<lparr>Mood := ''bright''\<rparr>) \<and>
   SceneCenter DemoPanel = SceneCenter (DemoPanel\<lparr>Mood := ''bright''\<rparr>) \<and>
   Index DemoPanel < Index (DemoPanel\<lparr>Index := 4\<rparr>) \<and>
   Index (DemoPanel\<lparr>Index := 4\<rparr>) = Index DemoPanel + 1 \<and>
   SceneCenter DemoPanel = FVector 6000 0 0 \<and>
   SceneCenter (DemoPanel\<lparr>Index := 4\<rparr>) = FVector 8000 0 0 \<and>
   SceneCenter DemoPanel \<noteq> SceneCenter (DemoPanel\<lparr>Index := 4\<rparr>) \<and>
   X (SceneCenter DemoPanel) < X (SceneCenter (DemoPanel\<lparr>Index := 4\<rparr>)) \<and>
   X (SceneCenter (DemoPanel\<lparr>Index := 4\<rparr>)) - X (SceneCenter DemoPanel) = 2000"
  using scene_center_by_index [of DemoPanel "DemoPanel\<lparr>Index := 4\<rparr>"]
    scene_center_by_index [of "DemoPanel\<lparr>Index := 4\<rparr>" DemoPanel]
    scene_center_by_index [of DemoPanel "DemoPanel\<lparr>Mood := ''bright''\<rparr>"]
  by simp

text \<open>
  The panels 8589973 and 8589974 have the same scene centre, and the panels 134218 and
  134219 are 2016 apart.
\<close>

theorem scene_centers_coincide_counterexample:
  "Index (DemoPanel\<lparr>Index := 8589973\<rparr>) \<noteq> Index (DemoPanel\<lparr>Index := 8589974\<rparr>) \<and>
   SceneCenter (DemoPanel\<lparr>Index := 8589973\<rparr>) = FVector 17179947008 0 0 \<and>
   SceneCenter (DemoPanel\<lparr>Index := 8589974\<rparr>) = FVector 17179947008 0 0 \<and>
   X (SceneCenter (DemoPanel\<lparr>Index := 134219\<rparr>)) -
     X (SceneCenter (DemoPanel\<lparr>Index := 134218\<rparr>)) = 2016"
  by (simp add: SceneCenter_def float_mul_def float_of_int32_def RoundToFloat_def
        quantum.simps Let_def)

section \<open>Sequence naming\<close>

text \<open>
  C6. \<open>CreateSequenceForPanel\<close> creates the package and the sequence under the name
  \<^verbatim>\<open>Panel_<index>_Sequence\<close> at the path prefix \<^verbatim>\<open>/Game/StoryboardSequences/\<close>, returns
  the sequence and saves it at that path when the object was created. The index is written
  with two digits when it lies between 0 and 99, with all its three or more digits from 100
  on, and with a minus sign and no padding when it is negative. Panel index 3 gives
  \<^verbatim>\<open>Panel_03_Sequence\<close>.
\<close>

theorem sequence_named_by_padded_index:
  "(0 \<le> Index Panel \<and> Index Panel \<le> 99 \<longrightarrow>
      SequenceName Panel =
        ''Panel_'' @ [digit_char (nat (Index Panel) div 10), digit_char (nat (Index Panel) mod 10)]
          @ ''_Sequence'') \<and>
   (100 \<le> Index Panel \<longrightarrow>
      SequenceName Panel = ''Panel_'' @ decimal (nat (Index Panel)) @ ''_Sequence'' \<and>
      3 \<le> length (decimal (nat (Index Panel)))) \<and>
   (Index Panel < 0 \<longrightarrow>
      SequenceName Panel = ''Panel_-'' @ decimal (nat (- Index Panel)) @ ''_Sequence'') \<and>
   PackagePath Panel = ''/Game/StoryboardSequences/'' @ SequenceName Panel \<and>
   take 2 (NewCalls s (snd (CreateSequenceForPanel host s Panel Duration))) =
     [CreatePackage (PackagePath Panel),
      NewLevelSequence (PackagePath Panel) (SequenceName Panel)] \<and>
   fst (CreateSequenceForPanel host s Panel Duration) =
     (if NewObjects host then Some (SequenceName Panel) else None) \<and>
   (NewObjects host \<longrightarrow>
      last (NewCalls s (snd (CreateSequenceForPanel host s Panel Duration))) =
        SaveAsset (PackagePath Panel))"
proof -
  have n: "NewCalls s (snd (CreateSequenceForPanel host s Panel Duration)) =
      SequenceCalls host Panel Duration"
    by (rule NewCalls_append) (rule Calls_CreateSequenceForPanel)
  have a: "0 \<le> Index Panel \<and> Index Panel \<le> 99 \<longrightarrow>
      SequenceName Panel =
        ''Panel_'' @ [digit_char (nat (Index Panel) div 10), digit_char (nat (Index Panel) mod 10)]
          @ ''_Sequence''"
    by (simp add: SequenceName_def Printf_02d_two_digits)
  have b: "100 \<le> Index Panel \<longrightarrow>
      SequenceName Panel = ''Panel_'' @ decimal (nat (Index Panel)) @ ''_Sequence'' \<and>
      3 \<le> length (decimal (nat (Index Panel)))"
    using length_decimal_ge3 [of "nat (Index Panel)"]
    by (auto simp add: SequenceName_def Printf_02d_large)
  have c: "Index Panel < 0 \<longrightarrow>
      SequenceName Panel = ''Panel_-'' @ decimal (nat (- Index Panel)) @ ''_Sequence''"
    by (simp add: SequenceName_def Printf_02d_def)
  have d: "PackagePath Panel = ''/Game/StoryboardSequences/'' @ SequenceName Panel"
    by (simp add: PackagePath_def)
  have e: "take 2 (SequenceCalls host Panel Duration) =
     [CreatePackage (PackagePath Panel),
      NewLevelSequence (PackagePath Panel) (SequenceName Panel)]"
    by (simp add: SequenceCalls_def)
  have f: "fst (CreateSequenceForPanel host s Panel Duration) =
     (if NewObjects host then Some (SequenceName Panel) else None)"
    by (simp add: CreateSequenceForPanel_def Let_def)
  have g: "NewObjects host \<longrightarrow>
      last (SequenceCalls host Panel Duration) = SaveAsset (PackagePath Panel)"
    by (simp add: SequenceCalls_def)
  from a b c d e f g show ?thesis unfolding n by blast
qed

theorem sequence_named_by_padded_index_witness:
  "0 \<le> Index DemoPanel \<and> Index DemoPanel \<le> 99 \<and> NewObjects DemoHost \<and>
   SequenceName DemoPanel = ''Panel_03_Sequence'' \<and>
   PackagePath DemoPanel = ''/Game/StoryboardSequences/Panel_03_Sequence'' \<and>
   take 2 (NewCalls DemoRun (snd (CreateSequenceForPanel DemoHost DemoRun DemoPanel 5))) =
     [CreatePackage ''/Game/StoryboardSequences/Panel_03_Sequence'',
      NewLevelSequence ''/Game/StoryboardSequences/Panel_03_Sequence'' ''Panel_03_Sequence''] \<and>
   fst (CreateSequenceForPanel DemoHost DemoRun DemoPanel 5) = Some ''Panel_03_Sequence'' \<and>
   last (NewCalls DemoRun (snd (CreateSequenceForPanel DemoHost DemoRun DemoPanel 5))) =
     SaveAsset ''/Game/StoryboardSequences/Panel_03_Sequence'' \<and>
   100 \<le> Index (DemoPanel\<lparr>Index := 2147483647\<rparr>) \<and>
   SequenceName (DemoPanel\<lparr>Index := 2147483647\<rparr>) = ''Panel_2147483647_Sequence'' \<and>
   Index (DemoPanel\<lparr>Index := - 12\<rparr>) < 0 \<and>
   SequenceName (DemoPanel\<lparr>Index := - 12\<rparr>) = ''Panel_-12_Sequence''"
  using sequence_named_by_padded_index [of DemoPanel DemoRun DemoHost 5]
    sequence_named_by_padded_index [of "DemoPanel\<lparr>Index := 2147483647\<rparr>" DemoRun DemoHost 5]
    sequence_named_by_padded_index [of "DemoPanel\<lparr>Index := - 12\<rparr>" DemoRun DemoHost 5]
  by (simp add: digit_char_simps decimal.simps)

text \<open>
  Panel index 100 gives a name with a three-digit index, and panel index -7 one with a sign
  and a single digit.
\<close>

theorem sequence_name_three_digits_counterexample:
  "SequenceName (DemoPanel\<lparr>Index := 100\<rparr>) = ''Panel_100_Sequence'' \<and>
   SequenceName (DemoPanel\<lparr>Index := - 7\<rparr>) = ''Panel_-7_Sequence'' \<and>
   length (Printf_02d (Index (DemoPanel\<lparr>Index := 100\<rparr>))) = 3"
  by (simp add: SequenceName_def Printf_02d_def decimal.simps digit_char_simps)

section \<open>Texture utilities\<close>

text \<open>
  C7. For every texture pointer and file path \<open>SaveTextureToFile\<close> returns false, and for
  every file path \<open>LoadTextureFromFile\<close> returns the null pointer; neither makes a call to
  the host nor changes the run in any other way.
\<close>

theorem texture_utilities_report_failure:
  "SaveTextureToFile s Texture FilePath = (False, s) \<and>
   LoadTextureFromFile s FilePath = (None, s)"
  by (simp add: SaveTextureToFile_def LoadTextureFromFile_def)

section \<open>Object placement\<close>

text \<open>
  C8. Where the editor has a world and \<^verbatim>\<open>FMath::RandRange\<close> keeps to its bounds, every cube
  that \<open>CreateSceneFromPanel\<close> places for an entry of the object list lies within the square
  around the scene centre: its offset from the centre is between -500 and 500 on each of
  the two horizontal axes and 0 on the vertical one. Where the cube asset loads there is
  one placement per entry.
\<close>

theorem objects_placed_within_square:
  assumes "World host" "RandRange_contract host"
  shows "(\<forall>c \<in> set (filter (isPlacement Cube) (NewCalls s (CreateSceneFromPanel host s Panel))).
            \<exists>l. c = SpawnActorFromObject Cube l ZeroRotator \<and>
                - 500 \<le> X l - X (SceneCenter Panel) \<and> X l - X (SceneCenter Panel) \<le> 500 \<and>
                - 500 \<le> Y l - Y (SceneCenter Panel) \<and> Y l - Y (SceneCenter Panel) \<le> 500 \<and>
                Z l - Z (SceneCenter Panel) = 0) \<and>
         (Assets host Cube \<longrightarrow>
            length (filter (isPlacement Cube) (NewCalls s (CreateSceneFromPanel host s Panel))) =
              length (Objects Panel))"
proof -
  have f: "filter (isPlacement Cube) (NewCalls s (CreateSceneFromPanel host s Panel)) =
       (if Assets host Cube
        then map (\<lambda>d. SpawnActorFromObject Cube (FVector_plus (SceneCenter Panel) d) ZeroRotator)
               (ObjectOffsets host (Drawn s) (length (Objects Panel)))
        else [])"
    using placements_of_scene [OF assms(1), of Cube s Panel] Cylinder_neq_Cube by simp
  show ?thesis
    unfolding f using ObjectOffsets_bounds [OF assms(2)]
    by (auto simp add: FVector_plus_def)
qed

theorem objects_placed_within_square_witness:
  "World DemoHost \<and> RandRange_contract DemoHost \<and> Assets DemoHost Cube \<and>
   filter (isPlacement Cube) (NewCalls DemoRun (CreateSceneFromPanel DemoHost DemoRun DemoPanel)) =
     [SpawnActorFromObject Cube (FVector 5500 (- 499) 0) ZeroRotator] \<and>
   length (filter (isPlacement Cube)
      (NewCalls DemoRun (CreateSceneFromPanel DemoHost DemoRun DemoPanel))) =
     length (Objects DemoPanel) \<and>
   X (SceneCenter DemoPanel) = 6000"
proof -
  have w: "World DemoHost" by simp
  have f: "filter (isPlacement Cube)
      (NewCalls DemoRun (CreateSceneFromPanel DemoHost DemoRun DemoPanel)) =
     [SpawnActorFromObject Cube (FVector 5500 (- 499) 0) ZeroRotator]"
    using placements_of_scene [OF w, of Cube DemoRun DemoPanel] Cylinder_neq_Cube
    by (simp add: ObjectOffsets_Demo SceneCenter_Demo FVector_plus_def)
  show ?thesis
    using objects_placed_within_square [OF w DemoHost_contract, of DemoRun DemoPanel] f
    by (simp add: DemoHost_contract SceneCenter_Demo)
qed

section \<open>The camera\<close>

text \<open>
  C9. Where the editor has a world, \<open>CreateSceneFromPanel\<close> asks for exactly one camera,
  whatever the panel: at the scene centre moved by minus the camera distance along the first
  axis and by 160 upwards, with the rotation of the direction from the camera to the scene
  centre, which is (distance, 0, -160). The shot type decides the distance and nothing
  else: the distance is 200 for \<^verbatim>\<open>close\<close>, 1000 for \<^verbatim>\<open>wide\<close> and 500 for every other shot
  type (compared ignoring the case of ASCII letters), while the scene centre is the same
  for every shot type. The only focal length it ever sets is 50, and it sets it once when
  the spawn returns the camera and the camera has its component.
\<close>

theorem camera_focal_length_and_placement:
  assumes "World host"
  shows "filter isCameraSpawn (NewCalls s (CreateSceneFromPanel host s Panel)) =
           [SpawnCineCameraActor
              (FVector_plus (SceneCenter Panel) (FVector (- CameraDistance Panel) 0 160))
              (Rotation (FVector_minus (SceneCenter Panel)
                 (FVector_plus (SceneCenter Panel) (FVector (- CameraDistance Panel) 0 160))))] \<and>
         FVector_minus (SceneCenter Panel)
             (FVector_plus (SceneCenter Panel) (FVector (- CameraDistance Panel) 0 160)) =
           FVector (CameraDistance Panel) 0 (- 160) \<and>
         CameraDistance Panel =
           (if ToLower (ShotType Panel) = ''close'' then 200
            else if ToLower (ShotType Panel) = ''wide'' then 1000 else 500) \<and>
         (CameraDistance Panel = 200 \<or> CameraDistance Panel = 500 \<or>
          CameraDistance Panel = 1000) \<and>
         SceneCenter (Panel\<lparr>ShotType := t\<rparr>) = SceneCenter Panel \<and>
         (filter isFocalLength (NewCalls s (CreateSceneFromPanel host s Panel)) = [] \<or>
          filter isFocalLength (NewCalls s (CreateSceneFromPanel host s Panel)) =
            [SetCurrentFocalLength 50]) \<and>
         ((\<forall>cs. Spawns host cs) \<and> CineCameraComponent host \<longrightarrow>
            filter isFocalLength (NewCalls s (CreateSceneFromPanel host s Panel)) =
              [SetCurrentFocalLength 50])"
proof -
  have c: "SceneCenter (Panel\<lparr>ShotType := t\<rparr>) = SceneCenter Panel"
    by (simp add: SceneCenter_def)
  have d: "CameraDistance Panel =
           (if ToLower (ShotType Panel) = ''close'' then 200
            else if ToLower (ShotType Panel) = ''wide'' then 1000 else 500)"
    by (rule CameraDistance_table)
  have r: "FVector_minus (SceneCenter Panel)
             (FVector_plus (SceneCenter Panel) (FVector (- CameraDistance Panel) 0 160)) =
           FVector (CameraDistance Panel) 0 (- 160)"
    by (simp add: FVector_minus_def FVector_plus_def)
  have p: "filter isCameraSpawn (NewCalls s (CreateSceneFromPanel host s Panel)) =
           [SpawnCineCameraActor
              (FVector_plus (SceneCenter Panel) (FVector (- CameraDistance Panel) 0 160))
              (Rotation (FVector_minus (SceneCenter Panel)
                 (FVector_plus (SceneCenter Panel) (FVector (- CameraDistance Panel) 0 160))))]"
    using camera_spawn_of_scene [OF assms, of s Panel]
    by (simp add: CameraLocation_def CameraRotation_def)
  have f: "filter isFocalLength (NewCalls s (CreateSceneFromPanel host s Panel)) = [] \<or>
          filter isFocalLength (NewCalls s (CreateSceneFromPanel host s Panel)) =
            [SetCurrentFocalLength 50]"
    using focal_length_of_scene [OF assms, of s Panel] by simp
  have g: "(\<forall>cs. Spawns host cs) \<and> CineCameraComponent host \<longrightarrow>
            filter isFocalLength (NewCalls s (CreateSceneFromPanel host s Panel)) =
              [SetCurrentFocalLength 50]"
    using focal_length_of_scene [OF assms, of s Panel] by simp
  from p r d CameraDistance_cases [of Panel] c f g show ?thesis by blast
qed

text \<open>
  The panel of the example with the shot types \<^verbatim>\<open>Wide\<close>, \<^verbatim>\<open>close\<close> and \<^verbatim>\<open>medium\<close>: the
  camera stands 1000, 200 and 500 behind the same scene centre, and the focal length is 50
  each time.
\<close>

theorem camera_focal_length_and_placement_witness:
  "World DemoHost \<and> (\<forall>cs. Spawns DemoHost cs) \<and> CineCameraComponent DemoHost \<and>
   filter isCameraSpawn (NewCalls DemoRun (CreateSceneFromPanel DemoHost DemoRun DemoPanel)) =
     [SpawnCineCameraActor (FVector 5000 0 160) (Rotation (FVector 1000 0 (- 160)))] \<and>
   filter isFocalLength (NewCalls DemoRun (CreateSceneFromPanel DemoHost DemoRun DemoPanel)) =
     [SetCurrentFocalLength 50] \<and>
   filter isCameraSpawn
     (NewCalls DemoRun
        (CreateSceneFromPanel DemoHost DemoRun (DemoPanel\<lparr>ShotType := ''close''\<rparr>))) =
     [SpawnCineCameraActor (FVector 5800 0 160) (Rotation (FVector 200 0 (- 160)))] \<and>
   filter isFocalLength
     (NewCalls DemoRun
        (CreateSceneFromPanel DemoHost DemoRun (DemoPanel\<lparr>ShotType := ''close''\<rparr>))) =
     [SetCurrentFocalLength 50] \<and>
   filter isCameraSpawn
     (NewCalls DemoRun
        (CreateSceneFromPanel DemoHost DemoRun (DemoPanel\<lparr>ShotType := ''medium''\<rparr>))) =
     [SpawnCineCameraActor (FVector 5500 0 160) (Rotation (FVector 500 0 (- 160)))] \<and>
   filter isFocalLength
     (NewCalls DemoRun
        (CreateSceneFromPanel DemoHost DemoRun (DemoPanel\<lparr>ShotType := ''medium''\<rparr>))) =
     [SetCurrentFocalLength 50] \<and>
   CameraDistance DemoPanel = 1000 \<and>
   CameraDistance (DemoPanel\<lparr>ShotType := ''close''\<rparr>) = 200 \<and>
   CameraDistance (DemoPanel\<lparr>ShotType := ''medium''\<rparr>) = 500 \<and>
   SceneCenter (DemoPanel\<lparr>ShotType := ''close''\<rparr>) = FVector 6000 0 0 \<and>
   SceneCenter (DemoPanel\<lparr>ShotType := ''medium''\<rparr>) = FVector 6000 0 0"
proof -
  note w = camera_focal_length_and_placement [of DemoHost DemoRun DemoPanel "''close''"]
  note m = camera_focal_length_and_placement [of DemoHost DemoRun DemoPanel "''medium''"]
  note c = camera_focal_length_and_placement
    [of DemoHost DemoRun "DemoPanel\<lparr>ShotType := ''close''\<rparr>" "''close''"]
  note d = camera_focal_length_and_placement
    [of DemoHost DemoRun "DemoPanel\<lparr>ShotType := ''medium''\<rparr>" "''medium''"]
  have sc: "SceneCenter (DemoPanel\<lparr>ShotType := ''close''\<rparr>) = FVector 6000 0 0"
    using w SceneCenter_Demo by simp
  have sm: "SceneCenter (DemoPanel\<lparr>ShotType := ''medium''\<rparr>) = FVector 6000 0 0"
    using m SceneCenter_Demo by simp
  have dw: "CameraDistance DemoPanel = 1000"
    using w by (simp add: lower_examples)
  have dc: "CameraDistance (DemoPanel\<lparr>ShotType := ''close''\<rparr>) = 200"
    using c by (simp add: lower_literals)
  have dm: "CameraDistance (DemoPanel\<lparr>ShotType := ''medium''\<rparr>) = 500"
    using d by (simp add: lower_examples)
  show ?thesis
    using w c d
    by (simp add: sc sm dw dc dm SceneCenter_Demo FVector_plus_def FVector_minus_def)
qed

section \<open>The key light\<close>

text \<open>
  C10. Where the editor has a world, \<open>SetupLighting\<close> asks for exactly one point light, at
  (-500, -500, 500) whatever the mood and the time of day. When the spawn returns the light,
  it sets the light's intensity to the resolved intensity times 1000 and its colour to the
  resolved colour; otherwise it sets neither.
\<close>

theorem key_light_spawn_and_settings:
  assumes "World host"
  shows "filter isLightSpawn (NewCalls s (SetupLighting host s mood tod)) =
           [SpawnPointLight (FVector (- 500) (- 500) 500) ZeroRotator] \<and>
         filter isLightSetting (NewCalls s (SetupLighting host s mood tod)) =
           (if Spawns host (Calls s @ [SpawnPointLight (FVector (- 500) (- 500) 500) ZeroRotator])
            then [SetIntensity (LightIntensity mood tod * 1000), SetLightColor (LightColor tod)]
            else [])"
proof -
  have "NewCalls s (SetupLighting host s mood tod) = LightCalls host s mood tod"
    by (rule NewCalls_append) (rule Calls_SetupLighting [OF assms])
  then show ?thesis
    using filter_LightCalls_spawn [of host s mood tod] filter_LightCalls_setting [of host s mood tod]
    by (simp add: KeyLightLocation_def)
qed

theorem key_light_spawn_and_settings_witness:
  "World DemoHost \<and>
   filter isLightSpawn (NewCalls DemoRun (SetupLighting DemoHost DemoRun ''dark'' ''night'')) =
     [SpawnPointLight (FVector (- 500) (- 500) 500) ZeroRotator] \<and>
   filter isLightSetting (NewCalls DemoRun (SetupLighting DemoHost DemoRun ''dark'' ''night'')) =
     [SetIntensity 500, SetLightColor (FLinearColor 0.4 0.5 0.7 1)]"
  using key_light_spawn_and_settings [of DemoHost DemoRun "''dark''" "''night''"]
  by (simp add: LightIntensity_def LightColor_def TimeOfDayLight_table MoodIntensity_table
        lower_literals)

end
